theory Spec2Isabelle
  imports Complex_Main "HOL-Library.AList"
begin

section \<open>Stream compaction of \<^verbatim>\<open>strava/stream_jsonl_processor.py\<close>\<close>

text \<open>
  A shallow embedding of the stream-compaction pipeline. Python numbers (ints and
  floats alike) are rationals: every finite float is one. The sum that the loop of
  \<^verbatim>\<open>_find_sampling_indices\<close> accumulates is rounded to a double as Python rounds
  it, since whether the loop ends depends on it; the other arithmetic of the source
  is exact, and infinities and NaN are not values of the model. Strings are lists of
  characters, dictionaries are association lists in insertion order (a Python
  dict keeps insertion order, and an assignment to an existing key keeps the key's
  position, as \<^const>\<open>AList.update\<close> does). An exception of the source is a value
  \<open>Inl e\<close>; a loop that may run forever returns \<open>None\<close>.
\<close>

subsection \<open>Values and errors\<close>

text \<open>
  The entries of a stream's data list: \<^verbatim>\<open>None\<close>, the empty string (the two markers
  of a missing sample the source tests for), a boolean (the \<^verbatim>\<open>moving\<close> flags) or a
  number.
\<close>

datatype pyval = VNone | VEmpty | VBool bool | VNum rat

datatype error =
    TypeError
  | ValueError
  | IndexError
  | AttributeError
  | FileNotFoundError
  | JSONDecodeError

text \<open>\<^verbatim>\<open>bool(value)\<close>.\<close>

fun truthy :: "pyval \<Rightarrow> bool" where
  "truthy VNone = False"
| "truthy VEmpty = False"
| "truthy (VBool b) = b"
| "truthy (VNum r) = (r \<noteq> 0)"

text \<open>\<^verbatim>\<open>float(value)\<close>: \<^verbatim>\<open>float(None)\<close> is a TypeError, \<^verbatim>\<open>float("")\<close> a ValueError.\<close>

fun py_float :: "pyval \<Rightarrow> error + rat" where
  "py_float VNone = Inl TypeError"
| "py_float VEmpty = Inl ValueError"
| "py_float (VBool b) = Inr (if b then 1 else 0)"
| "py_float (VNum r) = Inr r"

text \<open>
  \<^verbatim>\<open>round(x)\<close> of Python 3 rounds to the nearest integer, a tie to the even one.
\<close>

definition py_round :: "rat \<Rightarrow> int" where
  "py_round x =
     (let f = \<lfloor>x\<rfloor>; d = x - of_int f
      in if d < 1 / 2 then f
         else if 1 / 2 < d then f + 1
         else if even f then f else f + 1)"

text \<open>\<^verbatim>\<open>int(x)\<close> of a float truncates towards zero.\<close>

definition py_int :: "rat \<Rightarrow> int" where
  "py_int x = (if 0 \<le> x then \<lfloor>x\<rfloor> else \<lceil>x\<rceil>)"

subsection \<open>Float addition\<close>

text \<open>
  \<open>ilog2 n\<close> is the integer part of the binary logarithm of \<open>n \<ge> 1\<close>.
\<close>

function ilog2 :: "int \<Rightarrow> int" where
  "ilog2 n = (if n < 2 then 0 else 1 + ilog2 (n div 2))"
  by pat_completeness auto
termination
  by (relation "measure nat") auto

declare ilog2.simps [simp del]

definition pow2 :: "int \<Rightarrow> rat" where
  "pow2 e = (if 0 \<le> e then 2 ^ nat e else 1 / 2 ^ nat (- e))"

text \<open>The binary exponent \<open>e\<close> of \<open>a > 0\<close>: \<open>2 ^ e \<le> a < 2 ^ (e + 1)\<close>.\<close>

definition float_exponent :: "rat \<Rightarrow> int" where
  "float_exponent a =
     (if 1 \<le> a then ilog2 \<lfloor>a\<rfloor>
      else (let m = \<lceil>1 / a\<rceil> in if m \<le> 1 then 0 else - (1 + ilog2 (m - 1))))"

text \<open>
  The double nearest to \<open>x\<close>: 53 significant bits, a tie to the even one (the
  rounding of IEEE 754 in the normal range; overflow to infinity and subnormal
  numbers are not modelled).
\<close>

definition round_double :: "rat \<Rightarrow> rat" where
  "round_double x =
     (if x = 0 then 0
      else
        (let a = \<bar>x\<bar>;
             ulp = pow2 (float_exponent a - 52);
             m = py_round (a / ulp)
         in if x < 0 then - (of_int m * ulp) else of_int m * ulp))"

text \<open>
  \<^verbatim>\<open>a + b\<close> on two floats: the exact sum rounded to a double; adding \<^verbatim>\<open>0.0\<close> changes
  nothing.
\<close>

definition float_add :: "rat \<Rightarrow> rat \<Rightarrow> rat" where
  "float_add a b = (if a = 0 then b else if b = 0 then a else round_double (a + b))"

subsection \<open>Strings\<close>

definition digit_char :: "nat \<Rightarrow> char" where
  "digit_char d = char_of (48 + d)"

fun str_nat :: "nat \<Rightarrow> string" where
  "str_nat n = (if n < 10 then [digit_char n] else str_nat (n div 10) @ [digit_char (n mod 10)])"

declare str_nat.simps [simp del]

text \<open>\<^verbatim>\<open>str(n)\<close> of an int.\<close>

definition str_int :: "int \<Rightarrow> string" where
  "str_int i = (if i < 0 then CHR ''-'' # str_nat (nat (- i)) else str_nat (nat i))"

text \<open>\<^verbatim>\<open>sep.join(parts)\<close> with a one-character separator.\<close>

fun py_join :: "char \<Rightarrow> string list \<Rightarrow> string" where
  "py_join c [] = []"
| "py_join c [x] = x"
| "py_join c (x # y # ys) = x @ c # py_join c (y # ys)"

text \<open>\<^verbatim>\<open>s.split(sep)\<close> with a one-character separator: never an empty list.\<close>

fun py_split :: "char \<Rightarrow> string \<Rightarrow> string list" where
  "py_split c [] = [[]]"
| "py_split c (x # xs) =
     (if x = c then [] # py_split c xs
      else (case py_split c xs of t # ts \<Rightarrow> (x # t) # ts | [] \<Rightarrow> [[x]]))"

subsection \<open>Resampling engine\<close>

text \<open>
  The \<^verbatim>\<open>while current_time <= max_time\<close> loop of \<^verbatim>\<open>_find_sampling_indices\<close>, which
  appends the current time and adds the interval with \<^verbatim>\<open>current_time += interval_seconds\<close>,
  a float addition. It runs forever when the sum does not grow: when the interval is
  not positive, or when it is too small for the sum to change.
\<close>

partial_function (option) target_times_loop ::
  "rat \<Rightarrow> rat \<Rightarrow> rat \<Rightarrow> rat list \<Rightarrow> rat list option" where
  "target_times_loop current_time max_time interval_seconds target_times =
     (if current_time \<le> max_time
      then target_times_loop (float_add current_time interval_seconds) max_time
             interval_seconds
             (target_times @ [current_time])
      else Some target_times)"

declare target_times_loop.simps [code]

text \<open>
  \<^verbatim>\<open>min(items, key=key)\<close> on a non-empty list: the first item whose key is minimal
  (a later item replaces the best one only when its key is strictly smaller).
\<close>

fun min_by_from :: "('a \<Rightarrow> rat) \<Rightarrow> 'a \<Rightarrow> 'a list \<Rightarrow> 'a" where
  "min_by_from key best [] = best"
| "min_by_from key best (x # xs) =
     (if key x < key best then min_by_from key x xs else min_by_from key best xs)"

text \<open>
  \<^verbatim>\<open>min(range(len(time_data)), key=lambda i: abs(time_data[i] - target_time))\<close>;
  the caller has checked that \<^verbatim>\<open>time_data\<close> is not empty.
\<close>

definition closest_idx :: "rat list \<Rightarrow> rat \<Rightarrow> nat" where
  "closest_idx time_data target_time =
     min_by_from (\<lambda>i. \<bar>time_data ! i - target_time\<bar>) 0 [1..<length time_data]"

text \<open>The loop that removes duplicates while preserving order.\<close>

fun unique_loop :: "nat set \<Rightarrow> nat list \<Rightarrow> nat list \<Rightarrow> nat list" where
  "unique_loop seen unique_indices [] = unique_indices"
| "unique_loop seen unique_indices (idx # rest) =
     (if idx \<notin> seen then unique_loop (insert idx seen) (unique_indices @ [idx]) rest
      else unique_loop seen unique_indices rest)"

definition find_sampling_indices :: "rat list \<Rightarrow> rat \<Rightarrow> nat list option" where
  "find_sampling_indices time_data interval_seconds =
     (if time_data = [] then Some []
      else
        (case target_times_loop 0 (last time_data) interval_seconds [] of
           None \<Rightarrow> None
         | Some target_times \<Rightarrow>
             Some (unique_loop {} [] (map (closest_idx time_data) target_times))))"

subsection \<open>Exceptions as values\<close>

text \<open>A list comprehension whose element expression may raise: the first error wins.\<close>

fun emap :: "('a \<Rightarrow> error + 'b) \<Rightarrow> 'a list \<Rightarrow> error + 'b list" where
  "emap f [] = Inr []"
| "emap f (x # xs) =
     (case f x of
        Inl e \<Rightarrow> Inl e
      | Inr y \<Rightarrow> (case emap f xs of Inl e \<Rightarrow> Inl e | Inr ys \<Rightarrow> Inr (y # ys)))"

subsection \<open>Numeric utilities\<close>

text \<open>
  \<^verbatim>\<open>_is_numeric_value\<close>: a bool is an instance of \<^verbatim>\<open>int\<close> in Python, so it is numeric.
\<close>

fun is_numeric_value :: "pyval \<Rightarrow> bool" where
  "is_numeric_value VNone = False"
| "is_numeric_value VEmpty = False"
| "is_numeric_value (VBool b) = True"
| "is_numeric_value (VNum r) = True"

text \<open>The number a numeric value stands for (\<^verbatim>\<open>True\<close> is 1, \<^verbatim>\<open>False\<close> is 0).\<close>

fun num_of :: "pyval \<Rightarrow> rat" where
  "num_of (VNum r) = r"
| "num_of (VBool b) = (if b then 1 else 0)"
| "num_of VNone = 0"
| "num_of VEmpty = 0"

definition extract_numeric_values :: "pyval list \<Rightarrow> rat list" where
  "extract_numeric_values data = map num_of (filter is_numeric_value data)"

text \<open>\<^verbatim>\<open>a - b\<close>: a TypeError unless both operands are numbers.\<close>

definition py_sub :: "pyval \<Rightarrow> pyval \<Rightarrow> error + rat" where
  "py_sub a b =
     (if is_numeric_value a \<and> is_numeric_value b then Inr (num_of a - num_of b)
      else Inl TypeError)"

definition QUANTILE_LEVELS :: "nat list" where
  "QUANTILE_LEVELS = [5, 25, 50, 75, 95]"

definition CADENCE_MULTIPLIER :: rat where
  "CADENCE_MULTIPLIER = 2"

text \<open>
  \<^verbatim>\<open>np.percentile(values, q)\<close> of numpy, on a non-empty list, with its default linear
  interpolation between the order statistics around position \<open>q / 100 * (n - 1)\<close>.
\<close>

definition percentile :: "rat list \<Rightarrow> rat \<Rightarrow> rat" where
  "percentile values q =
     (let a = sort values;
          n = length a;
          pos = q / 100 * of_nat (n - 1);
          lo = nat \<lfloor>pos\<rfloor>;
          hi = min (lo + 1) (n - 1);
          g = pos - of_nat lo
      in a ! lo + (a ! hi - a ! lo) * g)"

text \<open>\<^verbatim>\<open>float(np.round(x, 6))\<close>.\<close>

definition round6 :: "rat \<Rightarrow> rat" where
  "round6 x = of_int (py_round (x * 1000000)) / 1000000"

text \<open>
  The dictionary \<^verbatim>\<open>{str(level): float(np.round(percentile_values[idx], 6)) ...}\<close>
  built from \<^verbatim>\<open>np.percentile(values, QUANTILE_LEVELS)\<close>.
\<close>

definition quantile_dict :: "rat list \<Rightarrow> (string \<times> rat) list" where
  "quantile_dict values =
     map (\<lambda>level. (str_nat level, round6 (percentile values (of_nat level)))) QUANTILE_LEVELS"

subsection \<open>Stream normalization\<close>

text \<open>
  One element of \<^verbatim>\<open>streams_data\<close>: \<open>stype\<close> is \<^verbatim>\<open>stream.get('type')\<close> and \<open>sdata\<close> is
  \<^verbatim>\<open>stream.get('data', [])\<close>.
\<close>

record raw_stream =
  stype :: "string option"
  sdata :: "pyval list"

type_synonym streams = "(string \<times> pyval list) list"

definition stream_key_for_quantiles :: "string \<Rightarrow> string" where
  "stream_key_for_quantiles stream_type =
     (case map_of
        [(''heartrate'', ''hr_bpm''),
         (''altitude'', ''altitude_m''),
         (''distance'', ''distance_m''),
         (''velocity_smooth'', ''velocity_smooth_ms''),
         (''cadence'', ''cadence_spm''),
         (''time'', ''time_s'')] stream_type of
        Some key \<Rightarrow> key
      | None \<Rightarrow> stream_type)"

definition convert_streams_to_dict :: "raw_stream list \<Rightarrow> streams" where
  "convert_streams_to_dict streams_data =
     foldl (\<lambda>streams_dict stream.
              (case stype stream of
                 Some stream_type \<Rightarrow>
                   if stream_type \<noteq> [] \<and> sdata stream \<noteq> []
                   then AList.update stream_type (sdata stream) streams_dict
                   else streams_dict
               | None \<Rightarrow> streams_dict))
       [] streams_data"

text \<open>
  \<^verbatim>\<open>_filter_by_moving\<close>; \<open>meaningful\<close> is the test \<^verbatim>\<open>value not in (None, "")\<close>.
\<close>

definition meaningful :: "pyval \<Rightarrow> bool" where
  "meaningful v = (v \<noteq> VNone \<and> v \<noteq> VEmpty)"

definition filter_data :: "nat list \<Rightarrow> pyval list \<Rightarrow> pyval list" where
  "filter_data valid_indices data = map (\<lambda>i. data ! i) (filter (\<lambda>i. i < length data) valid_indices)"

definition filter_by_moving :: "streams \<Rightarrow> streams" where
  "filter_by_moving streams_dict =
     (case map_of streams_dict ''moving'' of
        None \<Rightarrow> streams_dict
      | Some moving_data \<Rightarrow>
          if \<not> list_ex meaningful moving_data then streams_dict
          else
            (let valid_indices =
                   filter (\<lambda>idx. truthy (moving_data ! idx)) [0..<length moving_data]
             in if valid_indices = [] then []
                else map (\<lambda>(stream_type, data). (stream_type, filter_data valid_indices data))
                       streams_dict))"

definition double_cadence_values :: "streams \<Rightarrow> streams" where
  "double_cadence_values streams_dict =
     (case map_of streams_dict ''cadence'' of
        None \<Rightarrow> streams_dict
      | Some cadence \<Rightarrow>
          AList.update ''cadence''
            (map (\<lambda>v. if is_numeric_value v then VNum (num_of v * CADENCE_MULTIPLIER) else v)
               cadence)
            streams_dict)"

subsection \<open>Derived series and quantile summaries\<close>

type_synonym quantiles = "(string \<times> (string \<times> rat) list) list"

text \<open>The loop of \<^verbatim>\<open>_calculate_quantiles\<close> over \<^verbatim>\<open>streams_dict.items()\<close>.\<close>

definition calculate_quantiles :: "streams \<Rightarrow> bool \<Rightarrow> quantiles" where
  "calculate_quantiles streams_dict include_velocity =
     foldl (\<lambda>quantiles_result (stream_type, data).
              if data = [] then quantiles_result
              else
                (let numeric_values = extract_numeric_values data
                 in if numeric_values = [] then quantiles_result
                    else
                      (let key_name = stream_key_for_quantiles stream_type
                       in if key_name = ''velocity_smooth_ms'' \<and> \<not> include_velocity
                          then quantiles_result
                          else AList.update key_name (quantile_dict numeric_values)
                                 quantiles_result)))
       [] streams_dict"

text \<open>
  One round of the loop of \<^verbatim>\<open>_calculate_pace_quantiles\<close>, for \<open>1 \<le> i < len(time_data)\<close>:
  the pace it appends, if any.
\<close>

definition raw_pace_at :: "rat list \<Rightarrow> pyval list \<Rightarrow> nat \<Rightarrow> error + rat option" where
  "raw_pace_at time_data distance_data i =
     (let dt = time_data ! i - time_data ! (i - 1)
      in if dt \<le> 0 then Inr None
         else if i \<ge> length distance_data \<or> distance_data ! i = VNone
                 \<or> distance_data ! (i - 1) = VNone then Inr None
         else
           (case py_sub (distance_data ! i) (distance_data ! (i - 1)) of
              Inl e \<Rightarrow> Inl e
            | Inr dd \<Rightarrow> if dd \<le> 0 then Inr None else Inr (Some ((dt / dd) * 1000))))"

definition calculate_pace_quantiles ::
  "rat list \<Rightarrow> pyval list \<Rightarrow> error + (string \<times> rat) list option" where
  "calculate_pace_quantiles time_data distance_data =
     (case emap (raw_pace_at time_data distance_data) [1..<length time_data] of
        Inl e \<Rightarrow> Inl e
      | Inr paces \<Rightarrow>
          (let raw_pace_values = List.map_filter id paces
           in if raw_pace_values = [] then Inr None
              else Inr (Some (quantile_dict raw_pace_values))))"

text \<open>\<^verbatim>\<open>xs[i]\<close> for an index that is not negative.\<close>

definition py_get :: "'a list \<Rightarrow> nat \<Rightarrow> error + 'a" where
  "py_get xs i = (if i < length xs then Inr (xs ! i) else Inl IndexError)"

text \<open>
  The pace token of \<^verbatim>\<open>_calculate_pace_values\<close> from a time delta and the two distances
  it is taken between, once both are known not to be \<^verbatim>\<open>None\<close>.
\<close>

definition pace_token :: "rat \<Rightarrow> pyval \<Rightarrow> pyval \<Rightarrow> error + string" where
  "pace_token dt d_to d_from =
     (case py_sub d_to d_from of
        Inl e \<Rightarrow> Inl e
      | Inr dd \<Rightarrow>
          if dd > 0 \<and> dt > 0 then Inr (str_int (py_round ((dt / dd) * 1000))) else Inr [])"

text \<open>One round of the loop of \<^verbatim>\<open>_calculate_pace_values\<close>, for \<open>i < len(sampled_time)\<close>.\<close>

definition pace_value_at :: "rat list \<Rightarrow> pyval list \<Rightarrow> nat \<Rightarrow> error + string" where
  "pace_value_at sampled_time sampled_distance i =
     (if i = 0 then
        (if length sampled_time > 1 then
           (case py_get sampled_distance 0 of
              Inl e \<Rightarrow> Inl e
            | Inr d0 \<Rightarrow>
                if d0 \<noteq> VNone then
                  (case py_get sampled_distance 1 of
                     Inl e \<Rightarrow> Inl e
                   | Inr d1 \<Rightarrow>
                       if d1 \<noteq> VNone
                       then pace_token (sampled_time ! 1 - sampled_time ! 0) d1 d0
                       else Inr [])
                else Inr [])
         else Inr [])
      else
        (let dt = sampled_time ! i - sampled_time ! (i - 1)
         in (case py_get sampled_distance i of
               Inl e \<Rightarrow> Inl e
             | Inr di \<Rightarrow>
                 if di \<noteq> VNone then
                   (case py_get sampled_distance (i - 1) of
                      Inl e \<Rightarrow> Inl e
                    | Inr dp \<Rightarrow> if dp \<noteq> VNone then pace_token dt di dp else Inr [])
                 else Inr [])))"

definition calculate_pace_values :: "rat list \<Rightarrow> pyval list \<Rightarrow> error + string list" where
  "calculate_pace_values sampled_time sampled_distance =
     emap (pace_value_at sampled_time sampled_distance) [0..<length sampled_time]"

text \<open>
  The pace series as the specification words it: the pace at a sampled position
  is taken between that position and the previous one, at position 0 between the
  next position and position 0; it is \<open>(\<Delta>time / \<Delta>distance) * 1000\<close> rounded to an
  integer, and the empty string when a distance is missing or a delta is not
  positive.
\<close>

definition spec_pace_between :: "rat list \<Rightarrow> pyval list \<Rightarrow> nat \<Rightarrow> nat \<Rightarrow> string" where
  "spec_pace_between sampled_time sampled_distance later earlier =
     (if sampled_distance ! later = VNone \<or> sampled_distance ! earlier = VNone then []
      else
        (let dt = sampled_time ! later - sampled_time ! earlier;
             dd = num_of (sampled_distance ! later) - num_of (sampled_distance ! earlier)
         in if dd > 0 \<and> dt > 0 then str_int (py_round ((dt / dd) * 1000)) else []))"

definition spec_pace_series :: "rat list \<Rightarrow> pyval list \<Rightarrow> string list" where
  "spec_pace_series sampled_time sampled_distance =
     map (\<lambda>i. if i = 0
              then (if 1 < length sampled_time
                    then spec_pace_between sampled_time sampled_distance 1 0 else [])
              else spec_pace_between sampled_time sampled_distance i (i - 1))
       [0..<length sampled_time]"

definition sample_stream_data :: "pyval list \<Rightarrow> nat list \<Rightarrow> pyval list" where
  "sample_stream_data data indices =
     map (\<lambda>i. if i < length data \<and> data ! i \<noteq> VNone then data ! i else VNone) indices"

text \<open>
  The default \<^verbatim>\<open>format_func\<close>, \<^verbatim>\<open>str(int(round(v)))\<close>, guarded by \<^verbatim>\<open>if v is not None\<close>:
  \<^verbatim>\<open>round("")\<close> is a TypeError, \<^verbatim>\<open>round(True)\<close> is 1.
\<close>

fun format_int :: "pyval \<Rightarrow> error + string" where
  "format_int VNone = Inr []"
| "format_int VEmpty = Inl TypeError"
| "format_int (VBool b) = Inr (str_int (if b then 1 else 0))"
| "format_int (VNum r) = Inr (str_int (py_round r))"

text \<open>
  \<^verbatim>\<open>f"{x:.2f}"\<close>: two decimals, rounded from the exact value, a tie to even; the sign
  of a negative number is kept even when it rounds to zero.
\<close>

definition fmt_2f :: "rat \<Rightarrow> string" where
  "fmt_2f x =
     (let n = nat (py_round (\<bar>x\<bar> * 100));
          body = str_nat (n div 100) @ CHR ''.'' #
                 [digit_char ((n div 10) mod 10), digit_char (n mod 10)]
      in if x < 0 then CHR ''-'' # body else body)"

text \<open>The \<^verbatim>\<open>format_func\<close> of the velocity field: \<^verbatim>\<open>f"{float(v):.2f}"\<close>.\<close>

definition format_velocity :: "pyval \<Rightarrow> error + string" where
  "format_velocity v =
     (if v = VNone then Inr []
      else (case py_float v of Inl e \<Rightarrow> Inl e | Inr x \<Rightarrow> Inr (fmt_2f x)))"

definition format_sampled_values ::
  "pyval list \<Rightarrow> (pyval \<Rightarrow> error + string) \<Rightarrow> error + string" where
  "format_sampled_values values format_func =
     (case emap format_func values of
        Inl e \<Rightarrow> Inl e
      | Inr formatted \<Rightarrow> Inr (py_join CHR '','' formatted))"

subsection \<open>The sampling pipeline\<close>

type_synonym compact = "(string \<times> string) list"

text \<open>
  The first half of \<^verbatim>\<open>_sample_streams_common\<close>, up to the rebased time stream:
  \<open>Inr None\<close> is the early \<^verbatim>\<open>return {}, {}\<close>, and an \<open>Inl\<close> is the exception that
  \<^verbatim>\<open>float(t)\<close> raises on a time value that is not a number.
\<close>

definition rebase_streams ::
  "raw_stream list \<Rightarrow> bool \<Rightarrow> error + (streams \<times> rat list) option" where
  "rebase_streams streams_data filter_moving =
     (if streams_data = [] then Inr None
      else
        (let streams_dict = convert_streams_to_dict streams_data;
             streams_dict = (if filter_moving then filter_by_moving streams_dict else streams_dict)
         in if filter_moving \<and> streams_dict = [] then Inr None
            else
              (let streams_dict = AList.delete ''moving'' streams_dict;
                   streams_dict = double_cadence_values streams_dict
               in (case map_of streams_dict ''time'' of
                     None \<Rightarrow> Inr None
                   | Some time \<Rightarrow>
                       if time = [] then Inr None
                       else
                         (case emap py_float time of
                            Inl e \<Rightarrow> Inl e
                          | Inr floats \<Rightarrow>
                              (let time_offset = (case floats of [] \<Rightarrow> 0 | t0 # _ \<Rightarrow> t0);
                                   time_data = map (\<lambda>t. t - time_offset) floats
                               in Inr (Some (AList.update ''time'' (map VNum time_data)
                                               streams_dict,
                                             time_data))))))))"

text \<open>
  The quantile summary of \<^verbatim>\<open>_sample_streams_common\<close>: the per-stream quantiles and,
  when pace is included and a distance stream exists, the pace quantiles.
\<close>

definition summary_quantiles :: "streams \<Rightarrow> rat list \<Rightarrow> bool \<Rightarrow> bool \<Rightarrow> error + quantiles" where
  "summary_quantiles streams_dict time_data include_pace include_velocity =
     (let quantiles_result = calculate_quantiles streams_dict include_velocity
      in (case (if include_pace then map_of streams_dict ''distance'' else None) of
            None \<Rightarrow> Inr quantiles_result
          | Some distance \<Rightarrow>
              (case calculate_pace_quantiles time_data distance of
                 Inl e \<Rightarrow> Inl e
               | Inr None \<Rightarrow> Inr quantiles_result
               | Inr (Some pace_quantiles) \<Rightarrow>
                   Inr (AList.update ''pace_s_per_km'' pace_quantiles quantiles_result))))"

text \<open>
  The repeated step \<^verbatim>\<open>if '<stream>' in streams_dict: result["<key>"] = _format_sampled_values(
  _sample_stream_data(streams_dict['<stream>'], unique_indices), ...)\<close>: the entries it
  adds to the result.
\<close>

definition csv_field ::
  "streams \<Rightarrow> nat list \<Rightarrow> string \<Rightarrow> string \<Rightarrow> (pyval \<Rightarrow> error + string) \<Rightarrow> error + compact" where
  "csv_field streams_dict unique_indices stream_type key format_func =
     (case map_of streams_dict stream_type of
        None \<Rightarrow> Inr []
      | Some data \<Rightarrow>
          (case format_sampled_values (sample_stream_data data unique_indices) format_func of
             Inl e \<Rightarrow> Inl e
           | Inr csv \<Rightarrow> Inr [(key, csv)]))"

text \<open>The pace entry, added when pace is requested and a distance stream exists.\<close>

definition pace_field :: "streams \<Rightarrow> rat list \<Rightarrow> nat list \<Rightarrow> error + compact" where
  "pace_field streams_dict sampled_time unique_indices =
     (case map_of streams_dict ''distance'' of
        None \<Rightarrow> Inr []
      | Some distance \<Rightarrow>
          (case calculate_pace_values sampled_time (sample_stream_data distance unique_indices) of
             Inl e \<Rightarrow> Inl e
           | Inr pace_values \<Rightarrow> Inr [(''pace_s_per_km_csv'', py_join CHR '','' pace_values)]))"

text \<open>The entries of the result in the order they are added; the first exception wins.\<close>

fun econcat :: "(error + 'a list) list \<Rightarrow> error + 'a list" where
  "econcat [] = Inr []"
| "econcat (p # ps) =
     (case p of
        Inl e \<Rightarrow> Inl e
      | Inr xs \<Rightarrow> (case econcat ps of Inl e \<Rightarrow> Inl e | Inr ys \<Rightarrow> Inr (xs @ ys)))"

text \<open>
  The second half of \<^verbatim>\<open>_sample_streams_common\<close>: the result dictionary built from
  the streams sampled at \<open>unique_indices\<close>.
\<close>

definition compact_record ::
  "streams \<Rightarrow> rat list \<Rightarrow> nat list \<Rightarrow> rat \<Rightarrow> bool \<Rightarrow> bool \<Rightarrow> error + compact" where
  "compact_record streams_dict time_data unique_indices interval_seconds include_pace
       include_velocity =
     (let sampled_time = map (\<lambda>i. time_data ! i) unique_indices
      in econcat
           [Inr [(''sampling'', ''approx_'' @ str_int (py_int interval_seconds) @ ''s''),
                 (''time_s_csv'',
                  py_join CHR '','' (map (\<lambda>t. str_int (py_round t)) sampled_time))],
            (if include_pace then pace_field streams_dict sampled_time unique_indices
             else Inr []),
            csv_field streams_dict unique_indices ''heartrate'' ''hr_bpm_csv'' format_int,
            csv_field streams_dict unique_indices ''altitude'' ''alt_m_csv'' format_int,
            (if include_velocity
             then csv_field streams_dict unique_indices ''velocity_smooth''
                    ''velocity_smooth_ms_csv'' format_velocity
             else Inr []),
            csv_field streams_dict unique_indices ''cadence'' ''cadence_spm_csv'' format_int])"

text \<open>
  \<^verbatim>\<open>_sample_streams_common\<close>. \<open>None\<close>: the loop of \<^verbatim>\<open>_find_sampling_indices\<close> does
  not end; \<open>Some (Inl e)\<close>: an exception; \<open>Some (Inr (result, quantiles_result))\<close>: the
  pair returned.
\<close>

definition sample_streams_common ::
  "raw_stream list \<Rightarrow> rat \<Rightarrow> bool \<Rightarrow> bool \<Rightarrow> bool \<Rightarrow> (error + compact \<times> quantiles) option" where
  "sample_streams_common streams_data interval_seconds filter_moving include_pace
       include_velocity =
     (case rebase_streams streams_data filter_moving of
        Inl e \<Rightarrow> Some (Inl e)
      | Inr None \<Rightarrow> Some (Inr ([], []))
      | Inr (Some (streams_dict, time_data)) \<Rightarrow>
          (case summary_quantiles streams_dict time_data include_pace include_velocity of
             Inl e \<Rightarrow> Some (Inl e)
           | Inr quantiles_result \<Rightarrow>
               (case find_sampling_indices time_data interval_seconds of
                  None \<Rightarrow> None
                | Some unique_indices \<Rightarrow>
                    if unique_indices = [] then Some (Inr ([], []))
                    else
                      (case compact_record streams_dict time_data unique_indices
                              interval_seconds include_pace include_velocity of
                         Inl e \<Rightarrow> Some (Inl e)
                       | Inr result \<Rightarrow> Some (Inr (result, quantiles_result))))))"

definition sample_streams_at_intervals ::
  "raw_stream list \<Rightarrow> rat \<Rightarrow> (error + compact \<times> quantiles) option" where
  "sample_streams_at_intervals streams_data interval_seconds =
     sample_streams_common streams_data interval_seconds True True True"

definition sample_streams_without_moving_filter ::
  "raw_stream list \<Rightarrow> rat \<Rightarrow> (error + compact \<times> quantiles) option" where
  "sample_streams_without_moving_filter streams_data interval_seconds =
     sample_streams_common streams_data interval_seconds False False False"

subsection \<open>Record assembly\<close>

text \<open>
  The values of a record and of the activity metadata: what \<^verbatim>\<open>json.loads\<close> can
  return. A Python int and a float of the same value are equal, so one constructor
  holds both.
\<close>

datatype json =
    JNull
  | JBool bool
  | JNum rat
  | JStr string
  | JArr "json list"
  | JObj "(string \<times> json) list"

text \<open>\<^verbatim>\<open>bool(value)\<close>, as \<^verbatim>\<open>if value:\<close> and \<^verbatim>\<open>if not value:\<close> test it.\<close>

fun json_truthy :: "json \<Rightarrow> bool" where
  "json_truthy JNull = False"
| "json_truthy (JBool b) = b"
| "json_truthy (JNum r) = (r \<noteq> 0)"
| "json_truthy (JStr s) = (s \<noteq> [])"
| "json_truthy (JArr xs) = (xs \<noteq> [])"
| "json_truthy (JObj kvs) = (kvs \<noteq> [])"

text \<open>
  Characters are code points below 256. \<^verbatim>\<open>str.isspace\<close> holds of the code points
  9 to 13, 28 to 32, 133 and 160; \<^verbatim>\<open>str.lower\<close> adds 32 to the letters A to Z and
  to the upper-case letters of Latin-1.
\<close>

definition is_space :: "char \<Rightarrow> bool" where
  "is_space c =
     (let n = (of_char c :: nat)
      in (9 \<le> n \<and> n \<le> 13) \<or> (28 \<le> n \<and> n \<le> 32) \<or> n = 133 \<or> n = 160)"

definition py_strip :: "string \<Rightarrow> string" where
  "py_strip s = rev (dropWhile is_space (rev (dropWhile is_space s)))"

definition lower_char :: "char \<Rightarrow> char" where
  "lower_char c =
     (let n = (of_char c :: nat)
      in if (65 \<le> n \<and> n \<le> 90) \<or> (192 \<le> n \<and> n \<le> 222 \<and> n \<noteq> 215)
         then char_of (n + 32) else c)"

definition py_lower :: "string \<Rightarrow> string" where
  "py_lower s = map lower_char s"

definition startswith :: "string \<Rightarrow> string \<Rightarrow> bool" where
  "startswith s p = (take (length p) s = p)"

text \<open>
  \<^verbatim>\<open>_is_running_activity\<close> and \<^verbatim>\<open>_is_rest_activity\<close>, on the value of
  \<^verbatim>\<open>activity_data.get('name')\<close>: a truthy name that is not a string has no
  \<^verbatim>\<open>strip\<close> method.
\<close>

definition name_starts :: "string \<Rightarrow> json \<Rightarrow> error + bool" where
  "name_starts p activity_name =
     (if \<not> json_truthy activity_name then Inr False
      else
        (case activity_name of
           JStr s \<Rightarrow> Inr (startswith (py_lower (py_strip s)) p)
         | _ \<Rightarrow> Inl AttributeError))"

definition is_running_activity :: "json \<Rightarrow> error + bool" where
  "is_running_activity activity_name = name_starts ''running'' activity_name"

definition is_rest_activity :: "json \<Rightarrow> error + bool" where
  "is_rest_activity activity_name = name_starts ''rest'' activity_name"

text \<open>\<^verbatim>\<open>d.get(key)\<close>: \<^verbatim>\<open>None\<close> for a missing key.\<close>

definition dict_get :: "(string \<times> json) list \<Rightarrow> string \<Rightarrow> json" where
  "dict_get d key = (case map_of d key of Some v \<Rightarrow> v | None \<Rightarrow> JNull)"

definition json_of_compact :: "compact \<Rightarrow> json" where
  "json_of_compact c = JObj (map (\<lambda>(k, v). (k, JStr v)) c)"

definition json_of_quantile_dict :: "(string \<times> rat) list \<Rightarrow> json" where
  "json_of_quantile_dict d = JObj (map (\<lambda>(level, x). (level, JNum x)) d)"

definition json_of_quantiles :: "quantiles \<Rightarrow> json" where
  "json_of_quantiles q = JObj (map (\<lambda>(k, d). (k, json_of_quantile_dict d)) q)"

text \<open>
  The block of \<^verbatim>\<open>create_activity_jsonl_object\<close> under \<^verbatim>\<open>if streams_data:\<close>, from
  the classification of the name to the two optional entries it adds to the record.
\<close>

definition stream_entries ::
  "json \<Rightarrow> raw_stream list \<Rightarrow> rat \<Rightarrow> (error + (string \<times> json) list) option" where
  "stream_entries activity_name streams_data interval_seconds =
     (case is_running_activity activity_name of
        Inl e \<Rightarrow> Some (Inl e)
      | Inr is_running \<Rightarrow>
          (case is_rest_activity activity_name of
             Inl e \<Rightarrow> Some (Inl e)
           | Inr is_rest \<Rightarrow>
               (case sample_streams_common streams_data interval_seconds
                       is_running is_running is_running of
                  None \<Rightarrow> None
                | Some (Inl e) \<Rightarrow> Some (Inl e)
                | Some (Inr (compact_streams, quantiles)) \<Rightarrow>
                    (let quantiles =
                           (if \<not> is_running \<and> quantiles \<noteq> []
                            then AList.delete ''distance_m'' quantiles else quantiles);
                         compact_streams =
                           (if is_rest \<and> compact_streams \<noteq> []
                            then AList.delete ''alt_m_csv'' compact_streams
                            else compact_streams);
                         quantiles =
                           (if is_rest \<and> quantiles \<noteq> []
                            then AList.delete ''altitude_m'' quantiles else quantiles)
                     in Some (Inr
                          ((if compact_streams \<noteq> []
                            then [(''streams_compact'', json_of_compact compact_streams)]
                            else []) @
                           (if quantiles \<noteq> []
                            then [(''quantiles'', json_of_quantiles quantiles)]
                            else [])))))))"

text \<open>
  \<^verbatim>\<open>create_activity_jsonl_object\<close>; \<open>streams_data\<close> is \<open>None\<close> for the default
  argument \<^verbatim>\<open>None\<close>.
\<close>

definition create_activity_jsonl_object ::
  "(string \<times> json) list \<Rightarrow> raw_stream list option \<Rightarrow> rat \<Rightarrow>
   (error + (string \<times> json) list) option" where
  "create_activity_jsonl_object activity_data streams_data interval_seconds =
     (let jsonl_obj =
            [(''activity_id'', dict_get activity_data ''id''),
             (''name'', dict_get activity_data ''name''),
             (''type'', dict_get activity_data ''type''),
             (''start_date'', dict_get activity_data ''start_date''),
             (''distance_m'', dict_get activity_data ''distance''),
             (''moving_time_s'', dict_get activity_data ''moving_time''),
             (''elapsed_time_s'', dict_get activity_data ''elapsed_time''),
             (''total_elevation_gain_m'', dict_get activity_data ''total_elevation_gain''),
             (''average_speed_ms'', dict_get activity_data ''average_speed''),
             (''max_speed_ms'', dict_get activity_data ''max_speed''),
             (''average_heartrate_bpm'', dict_get activity_data ''average_heartrate''),
             (''max_heartrate_bpm'', dict_get activity_data ''max_heartrate''),
             (''calories'', dict_get activity_data ''calories'')];
          added =
            (case streams_data of
               None \<Rightarrow> Some (Inr [])
             | Some sd \<Rightarrow>
                 if sd = [] then Some (Inr [])
                 else stream_entries (dict_get activity_data ''name'') sd interval_seconds)
      in (case added of
            None \<Rightarrow> None
          | Some (Inl e) \<Rightarrow> Some (Inl e)
          | Some (Inr entries) \<Rightarrow>
              Some (Inr (filter (\<lambda>(k, v). v \<noteq> JNull) (jsonl_obj @ entries)))))"

subsection \<open>Batch files\<close>

text \<open>
  The file system is a map from paths to the text of the files. The JSON text
  syntax belongs to Python's \<^verbatim>\<open>json\<close> module, not to this program:
  \<open>dumps\<close> stands for \<^verbatim>\<open>json.dumps(obj, ensure_ascii=False)\<close> and \<open>loads\<close> for
  \<^verbatim>\<open>json.loads\<close>, with \<open>None\<close> for a \<^verbatim>\<open>JSONDecodeError\<close>.
\<close>

type_synonym fs = "string \<rightharpoonup> string"

definition newline :: char where
  "newline = CHR 0x0A"

definition carriage_return :: char where
  "carriage_return = CHR 0x0D"

definition save_jsonl_file ::
  "(json \<Rightarrow> string) \<Rightarrow> json list \<Rightarrow> string \<Rightarrow> fs \<Rightarrow> fs" where
  "save_jsonl_file dumps jsonl_objects filepath files =
     files(filepath \<mapsto> concat (map (\<lambda>obj. dumps obj @ [newline]) jsonl_objects))"

text \<open>
  A file opened for reading in text mode translates \<^verbatim>\<open>\r\n\<close> and \<^verbatim>\<open>\r\<close> to \<^verbatim>\<open>\n\<close>;
  the loop \<^verbatim>\<open>for line in f\<close> then sees the pieces between the newlines. (Python
  keeps the newline at the end of each piece and yields no empty last piece; both
  callers strip every line and skip the empty ones.)
\<close>

fun universal_newlines :: "string \<Rightarrow> string" where
  "universal_newlines [] = []"
| "universal_newlines [c] = (if c = carriage_return then [newline] else [c])"
| "universal_newlines (c # d # cs) =
     (if c = carriage_return
      then (if d = newline then newline # universal_newlines cs
            else newline # universal_newlines (d # cs))
      else c # universal_newlines (d # cs))"

definition file_lines :: "string \<Rightarrow> string list" where
  "file_lines content = py_split newline (universal_newlines content)"

text \<open>The loop of \<^verbatim>\<open>load_jsonl_file\<close>.\<close>

fun load_lines :: "(string \<Rightarrow> json option) \<Rightarrow> string list \<Rightarrow> error + json list" where
  "load_lines loads [] = Inr []"
| "load_lines loads (l # ls) =
     (let line = py_strip l
      in if line \<noteq> [] then
           (case loads line of
              None \<Rightarrow> Inl JSONDecodeError
            | Some obj \<Rightarrow>
                (case load_lines loads ls of
                   Inl e \<Rightarrow> Inl e
                 | Inr jsonl_objects \<Rightarrow> Inr (obj # jsonl_objects)))
         else load_lines loads ls)"

definition load_jsonl_file ::
  "(string \<Rightarrow> json option) \<Rightarrow> string \<Rightarrow> fs \<Rightarrow> error + json list" where
  "load_jsonl_file loads filepath files =
     (case files filepath of
        None \<Rightarrow> Inl FileNotFoundError
      | Some content \<Rightarrow> load_lines loads (file_lines content))"

text \<open>
  What the round trip needs of a line that \<^verbatim>\<open>json.dumps\<close> writes: it is not
  empty, it has no line break in it, and it neither starts nor ends with white
  space. The text of a JSON object is such a line: it starts with \<^verbatim>\<open>{\<close>, ends with
  \<^verbatim>\<open>}\<close>, and every control character of a string in it is escaped.
\<close>

definition json_line :: "string \<Rightarrow> bool" where
  "json_line s =
     (s \<noteq> [] \<and> newline \<notin> set s \<and> carriage_return \<notin> set s \<and>
      \<not> is_space (hd s) \<and> \<not> is_space (last s))"

subsection \<open>Heart-rate randomization\<close>

text \<open>
  \<^verbatim>\<open>random.randint(a, b)\<close> returns an integer \<open>N\<close> with \<open>a \<le> N \<le> b\<close> and raises a
  ValueError when the range is empty. The generator is a sequence \<open>rnd\<close> of raw
  numbers, of which every call consumes the next one; which number of the range a
  call returns is up to that sequence.
\<close>

definition randint :: "int \<Rightarrow> int \<Rightarrow> nat \<Rightarrow> error + int" where
  "randint a b raw = (if b < a then Inl ValueError else Inr (a + int (raw mod nat (b - a + 1))))"

text \<open>
  The numbers that the list comprehension
  \<^verbatim>\<open>[str(random.randint(min_hr, max_hr)) for _ in hr_values]\<close> draws for \<open>n\<close> tokens
  when \<open>min_hr \<le> max_hr\<close>: one call, and one raw number of the generator, per token.
\<close>

definition draws :: "(nat \<Rightarrow> nat) \<Rightarrow> nat \<Rightarrow> int \<Rightarrow> int \<Rightarrow> nat \<Rightarrow> int list" where
  "draws rnd pos min_hr max_hr n =
     map (\<lambda>k. min_hr + int (rnd k mod nat (max_hr - min_hr + 1))) [pos..<pos + n]"

text \<open>
  \<^verbatim>\<open>int(s)\<close> on the decimal strings that \<^verbatim>\<open>str\<close> produces: an optional minus sign
  and digits.
\<close>

definition digit_val :: "char \<Rightarrow> nat option" where
  "digit_val c =
     (let n = (of_char c :: nat) in if 48 \<le> n \<and> n \<le> 57 then Some (n - 48) else None)"

fun parse_digits :: "nat \<Rightarrow> string \<Rightarrow> nat option" where
  "parse_digits acc [] = Some acc"
| "parse_digits acc (c # cs) =
     (case digit_val c of None \<Rightarrow> None | Some d \<Rightarrow> parse_digits (10 * acc + d) cs)"

definition int_of_str :: "string \<Rightarrow> error + int" where
  "int_of_str s =
     (case s of
        [] \<Rightarrow> Inl ValueError
      | c # cs \<Rightarrow>
          if c = CHR ''-'' then
            (if cs = [] then Inl ValueError
             else (case parse_digits 0 cs of
                     None \<Rightarrow> Inl ValueError
                   | Some n \<Rightarrow> Inr (- int n)))
          else (case parse_digits 0 s of None \<Rightarrow> Inl ValueError | Some n \<Rightarrow> Inr (int n)))"

text \<open>\<^verbatim>\<open>[val.strip() for val in hr_csv.split(',') if val.strip()]\<close>.\<close>

definition hr_tokens :: "string \<Rightarrow> string list" where
  "hr_tokens hr_csv = filter (\<lambda>val. val \<noteq> []) (map py_strip (py_split CHR '','' hr_csv))"

text \<open>\<^verbatim>\<open>int(np.mean(numeric_hr))\<close> and \<^verbatim>\<open>max(numeric_hr)\<close>, on a non-empty list.\<close>

definition mean :: "int list \<Rightarrow> rat" where
  "mean xs = of_int (sum_list xs) / of_nat (length xs)"

definition py_max :: "int list \<Rightarrow> int" where
  "py_max xs = Max (set xs)"

text \<open>
  The statements under \<^verbatim>\<open>if numeric_hr:\<close>, on the record \<open>obj\<close> as a dictionary:
  the quantiles of the new values are stored under \<^verbatim>\<open>quantiles.hr_bpm\<close> (an item
  assignment into a \<^verbatim>\<open>quantiles\<close> value that is not a dictionary is a TypeError),
  then the two scalar fields are overwritten if they exist.
\<close>

definition update_summaries :: "int list \<Rightarrow> (string \<times> json) list \<Rightarrow> error + (string \<times> json) list" where
  "update_summaries numeric_hr obj =
     (let obj = (if map_of obj ''quantiles'' = None
                 then AList.update ''quantiles'' (JObj []) obj else obj)
      in (case map_of obj ''quantiles'' of
            Some (JObj q) \<Rightarrow>
              (let hr_bpm = json_of_quantile_dict (quantile_dict (map of_int numeric_hr));
                   obj = AList.update ''quantiles'' (JObj (AList.update ''hr_bpm'' hr_bpm q)) obj;
                   avg_hr = py_int (mean numeric_hr);
                   max_hr_value = py_max numeric_hr;
                   obj = (if map_of obj ''average_heartrate_bpm'' \<noteq> None
                          then AList.update ''average_heartrate_bpm'' (JNum (of_int avg_hr)) obj
                          else obj);
                   obj = (if map_of obj ''max_heartrate_bpm'' \<noteq> None
                          then AList.update ''max_heartrate_bpm'' (JNum (of_int max_hr_value)) obj
                          else obj)
               in Inr obj)
          | _ \<Rightarrow> Inl TypeError))"

text \<open>
  The statements under \<^verbatim>\<open>if hr_csv:\<close> for a record \<open>obj\<close> whose \<^verbatim>\<open>streams_compact\<close>
  is the dictionary \<open>sc\<close> and whose \<^verbatim>\<open>hr_bpm_csv\<close> is the string \<open>hr_csv\<close>. The
  draws are the raw numbers \<open>rnd pos\<close>, \<open>rnd (pos + 1)\<close>, ...; the position after
  the draws is returned with the record.
\<close>

definition replace_hr ::
  "(nat \<Rightarrow> nat) \<Rightarrow> nat \<Rightarrow> int \<Rightarrow> int \<Rightarrow> (string \<times> json) list \<Rightarrow> (string \<times> json) list \<Rightarrow> string \<Rightarrow>
   error + (json \<times> nat)" where
  "replace_hr rnd pos min_hr max_hr obj sc hr_csv =
     (let hr_values = hr_tokens hr_csv;
          n = length hr_values
      in (case emap (\<lambda>k. randint min_hr max_hr (rnd k)) [pos..<pos + n] of
            Inl e \<Rightarrow> Inl e
          | Inr drawn \<Rightarrow>
              (let new_hr_values = map str_int drawn;
                   sc = AList.update ''hr_bpm_csv'' (JStr (py_join CHR '','' new_hr_values)) sc;
                   obj = AList.update ''streams_compact'' (JObj sc) obj
               in (case emap int_of_str new_hr_values of
                     Inl e \<Rightarrow> Inl e
                   | Inr numeric_hr \<Rightarrow>
                       if numeric_hr \<noteq> [] then
                         (case update_summaries numeric_hr obj of
                            Inl e \<Rightarrow> Inl e
                          | Inr obj \<Rightarrow> Inr (JObj obj, pos + n))
                       else Inr (JObj obj, pos + n)))))"

text \<open>\<^verbatim>\<open>needle in haystack\<close> for two strings.\<close>

fun is_substring :: "string \<Rightarrow> string \<Rightarrow> bool" where
  "is_substring needle [] = (needle = [])"
| "is_substring needle (c # cs) =
     (take (length needle) (c # cs) = needle \<or> is_substring needle cs)"

text \<open>
  The body of the loop of \<^verbatim>\<open>modify_heartrate_to_abnormal\<close> for one decoded line
  \<open>obj\<close>, from \<^verbatim>\<open>obj.copy()\<close> to the modified object. A JSON value that is not a
  dictionary has no \<^verbatim>\<open>copy\<close> method (a list has one); \<^verbatim>\<open>in\<close> is a TypeError on a
  value that is not a container, the substring test on a string and the membership
  test on a list, after which the subscript with a string key is a TypeError; a
  truthy \<^verbatim>\<open>hr_bpm_csv\<close> that is not a string has no \<^verbatim>\<open>split\<close> method.
\<close>

definition modify_record ::
  "(nat \<Rightarrow> nat) \<Rightarrow> nat \<Rightarrow> int \<Rightarrow> int \<Rightarrow> json \<Rightarrow> error + (json \<times> nat)" where
  "modify_record rnd pos min_hr max_hr obj =
     (case obj of
        JObj modified_obj \<Rightarrow>
          (case map_of modified_obj ''streams_compact'' of
             None \<Rightarrow> Inr (obj, pos)
           | Some (JObj sc) \<Rightarrow>
               (case map_of sc ''hr_bpm_csv'' of
                  None \<Rightarrow> Inr (obj, pos)
                | Some hr_csv \<Rightarrow>
                    if json_truthy hr_csv then
                      (case hr_csv of
                         JStr s \<Rightarrow> replace_hr rnd pos min_hr max_hr modified_obj sc s
                       | _ \<Rightarrow> Inl AttributeError)
                    else Inr (obj, pos))
           | Some (JStr s) \<Rightarrow>
               if is_substring ''hr_bpm_csv'' s then Inl TypeError else Inr (obj, pos)
           | Some (JArr xs) \<Rightarrow>
               if JStr ''hr_bpm_csv'' \<in> set xs then Inl TypeError else Inr (obj, pos)
           | Some _ \<Rightarrow> Inl TypeError)
      | JArr xs \<Rightarrow> if JStr ''streams_compact'' \<in> set xs then Inl TypeError else Inr (obj, pos)
      | _ \<Rightarrow> Inl AttributeError)"

text \<open>
  The loop \<^verbatim>\<open>for line in f\<close> of \<^verbatim>\<open>modify_heartrate_to_abnormal\<close>. A line that is
  not JSON raises a \<^verbatim>\<open>JSONDecodeError\<close>, which the function catches and raises again
  as a ValueError.
\<close>

fun modify_lines ::
  "(string \<Rightarrow> json option) \<Rightarrow> (nat \<Rightarrow> nat) \<Rightarrow> nat \<Rightarrow> int \<Rightarrow> int \<Rightarrow> string list \<Rightarrow>
   error + json list" where
  "modify_lines loads rnd pos min_hr max_hr [] = Inr []"
| "modify_lines loads rnd pos min_hr max_hr (l # ls) =
     (let line = py_strip l
      in if line = [] then modify_lines loads rnd pos min_hr max_hr ls
         else
           (case loads line of
              None \<Rightarrow> Inl ValueError
            | Some obj \<Rightarrow>
                (case modify_record rnd pos min_hr max_hr obj of
                   Inl e \<Rightarrow> Inl e
                 | Inr (modified_obj, pos') \<Rightarrow>
                     (case modify_lines loads rnd pos' min_hr max_hr ls of
                        Inl e \<Rightarrow> Inl e
                      | Inr modified_objects \<Rightarrow> Inr (modified_obj # modified_objects)))))"

text \<open>
  \<^verbatim>\<open>modify_heartrate_to_abnormal\<close>: the outcome (\<open>Inr ()\<close> for a normal return) and
  the file system it leaves.
\<close>

definition modify_heartrate_to_abnormal ::
  "(json \<Rightarrow> string) \<Rightarrow> (string \<Rightarrow> json option) \<Rightarrow> (nat \<Rightarrow> nat) \<Rightarrow> fs \<Rightarrow> string \<Rightarrow> string \<Rightarrow>
   int \<Rightarrow> int \<Rightarrow> (error + unit) \<times> fs" where
  "modify_heartrate_to_abnormal dumps loads rnd files jsonl_filepath output_filepath
       min_hr max_hr =
     (if min_hr \<ge> max_hr then (Inl ValueError, files)
      else
        (case files jsonl_filepath of
           None \<Rightarrow> (Inl FileNotFoundError, files)
         | Some content \<Rightarrow>
             (case modify_lines loads rnd 0 min_hr max_hr (file_lines content) of
                Inl e \<Rightarrow> (Inl e, files)
              | Inr modified_objects \<Rightarrow>
                  (Inr (), save_jsonl_file dumps modified_objects output_filepath files))))"

section \<open>Properties\<close>

subsection \<open>The resampling engine\<close>












text \<open>
  The loop follows the float sums: on the time series 0.0, 0.1, 0.2, 0.3 (the
  doubles nearest to the tenths) with the interval 0.1, the third sum
  \<^verbatim>\<open>0.2 + 0.1\<close> is the double above 0.3, so the loop stops after the target 0.2
  and the last sample is not selected.
\<close>

lemma tenths_are_doubles:
  "round_double (1 / 10) = 3602879701896397 / 36028797018963968 \<and>
   round_double (2 / 10) = 3602879701896397 / 18014398509481984 \<and>
   round_double (3 / 10) = 5404319552844595 / 18014398509481984"
  by code_simp

lemma tenths_stop_early:
  "find_sampling_indices
     [0, 3602879701896397 / 36028797018963968, 3602879701896397 / 18014398509481984,
      5404319552844595 / 18014398509481984]
     (3602879701896397 / 36028797018963968) = Some [0, 1, 2]"
  by code_simp



lemma unique_loop_props:
  "distinct acc \<Longrightarrow>
   distinct (unique_loop (set acc) acc xs) \<and> set (unique_loop (set acc) acc xs) = set acc \<union> set xs"
proof (induction xs arbitrary: acc)
  case Nil
  then show ?case by simp
next
  case (Cons a xs)
  show ?case
  proof (cases "a \<in> set acc")
    case True
    with Cons show ?thesis by auto
  next
    case False
    with Cons.prems have d: "distinct (acc @ [a])" by simp
    have s: "insert a (set acc) = set (acc @ [a])" by simp
    from Cons.IH [OF d] False show ?thesis
      by (simp only: unique_loop.simps s if_True not_False_eq_True) auto
  qed
qed








text \<open>
  C5, as amended. For every non-empty time series whose last observed time is not
  negative and every interval strictly larger than that time,
  \<^verbatim>\<open>_find_sampling_indices\<close> returns exactly one index: the index closest to time 0.
\<close>

theorem long_interval_single_index:
  "time_data \<noteq> [] \<Longrightarrow> 0 \<le> last time_data \<Longrightarrow> last time_data < interval_seconds \<Longrightarrow>
   find_sampling_indices time_data interval_seconds = Some [closest_idx time_data 0]"
  by (simp add: find_sampling_indices_def float_add_def target_times_loop.simps [of 0]
        target_times_loop.simps [of interval_seconds])


theorem long_interval_single_index_witness:
  "[0, 3, 7 :: rat] \<noteq> [] \<and> 0 \<le> last [0, 3, 7 :: rat] \<and> last [0, 3, 7 :: rat] < 8 \<and>
   find_sampling_indices [0, 3, 7] 8 = Some [closest_idx [0, 3, 7] 0]"
  using long_interval_single_index [of "[0, 3, 7]" 8] by simp


text \<open>
  C5, as stated, fails on a rebased series that ends before it starts: the series
  \<open>[10, 5]\<close> rebased is \<open>[0, -5]\<close>, the interval 1 is larger than its last time, the
  loop \<^verbatim>\<open>while current_time <= max_time\<close> is not entered, and no index is returned.
\<close>

theorem long_interval_negative_duration:
  "[0, - 5 :: rat] \<noteq> [] \<and> hd [0, - 5 :: rat] = 0 \<and> last [0, - 5 :: rat] < 1 \<and>
   find_sampling_indices [0, - 5] 1 = Some []"
  by (simp add: find_sampling_indices_def target_times_loop.simps [of 0])

subsection \<open>The moving filter\<close>

text \<open>
  C2, as amended. For every StreamSet with a \<^verbatim>\<open>moving\<close> stream in which every value
  is falsy, \<^verbatim>\<open>_filter_by_moving\<close> returns the empty StreamSet when at least one of
  the values is meaningful (neither \<^verbatim>\<open>None\<close> nor the empty string: \<^verbatim>\<open>False\<close> or 0),
  and returns the StreamSet unchanged when none is.
\<close>

theorem filter_by_moving_all_falsy:
  assumes "map_of streams_dict ''moving'' = Some moving_data"
    and "\<forall>v \<in> set moving_data. \<not> truthy v"
  shows "filter_by_moving streams_dict =
           (if \<exists>v \<in> set moving_data. meaningful v then [] else streams_dict)"
proof -
  have "filter (\<lambda>idx. truthy (moving_data ! idx)) [0..<length moving_data] = []"
    using assms(2) by (simp add: filter_empty_conv)
  with assms(1) show ?thesis
    by (simp add: filter_by_moving_def list_ex_iff)
qed

theorem filter_by_moving_all_falsy_witness:
  "map_of [(''moving'', [VBool False, VNone]), (''time'', [VNum 0, VNum 1])] ''moving''
     = Some [VBool False, VNone] \<and>
   \<not> truthy (VBool False) \<and> \<not> truthy VNone \<and> meaningful (VBool False) \<and>
   filter_by_moving [(''moving'', [VBool False, VNone]), (''time'', [VNum 0, VNum 1])] = []"
  using filter_by_moving_all_falsy
    [of "[(''moving'', [VBool False, VNone]), (''time'', [VNum 0, VNum 1])]"
        "[VBool False, VNone]"]
  by (simp add: meaningful_def)

text \<open>
  C2, as stated, fails when the falsy values are all \<^verbatim>\<open>None\<close> or empty: the guard
  \<^verbatim>\<open>if not any(value not in (None, "") for value in moving_data)\<close> returns the
  StreamSet as it is, with its \<^verbatim>\<open>time\<close> stream.
\<close>

theorem filter_by_moving_none_only:
  "\<not> truthy VNone \<and> \<not> truthy VEmpty \<and>
   filter_by_moving [(''moving'', [VNone, VEmpty]), (''time'', [VNum 0, VNum 1])] =
     [(''moving'', [VNone, VEmpty]), (''time'', [VNum 0, VNum 1])]"
  by (simp add: filter_by_moving_def meaningful_def)

subsection \<open>Batch files\<close>

lemma universal_newlines_id: "carriage_return \<notin> set s \<Longrightarrow> universal_newlines s = s"
  by (induction s rule: universal_newlines.induct) auto

lemma py_split_append: "c \<notin> set a \<Longrightarrow> py_split c (a @ c # rest) = a # py_split c rest"
  by (induction a) (auto split: list.splits)

lemma py_strip_id:
  assumes "s \<noteq> []" "\<not> is_space (hd s)" "\<not> is_space (last s)"
  shows "py_strip s = s"
proof -
  from assms have 1: "dropWhile is_space s = s" by (cases s) auto
  have "dropWhile is_space (x # xs) = x # xs" if "\<not> is_space x" for x xs
    using that by simp
  from this [of "last s" "rev (butlast s)"] assms
  have 2: "dropWhile is_space (rev s) = rev s"
    by (metis append_butlast_last_id rev.simps(2) rev_rev_ident rev_swap)
  show ?thesis by (simp add: py_strip_def 1 2)
qed

lemma file_lines_saved:
  assumes "\<forall>l \<in> set ls. newline \<notin> set l \<and> carriage_return \<notin> set l"
  shows "file_lines (concat (map (\<lambda>l. l @ [newline]) ls)) = ls @ [[]]"
proof -
  have nc: "newline \<noteq> carriage_return" by (simp add: newline_def carriage_return_def)
  have "carriage_return \<notin> set (concat (map (\<lambda>l. l @ [newline]) ls))"
    using assms nc by auto
  then have u: "universal_newlines (concat (map (\<lambda>l. l @ [newline]) ls))
      = concat (map (\<lambda>l. l @ [newline]) ls)" by (rule universal_newlines_id)
  have "py_split newline (concat (map (\<lambda>l. l @ [newline]) ls)) = ls @ [[]]"
    using assms by (induction ls) (simp_all add: py_split_append)
  with u show ?thesis by (simp add: file_lines_def)
qed

lemma load_lines_dumps:
  assumes "\<forall>obj \<in> set objs. json_line (dumps obj) \<and> loads (dumps obj) = Some obj"
  shows "load_lines loads (map dumps objs @ [[]]) = Inr objs"
  using assms
proof (induction objs)
  case Nil
  show ?case by (simp add: py_strip_def)
next
  case (Cons obj objs)
  then have "json_line (dumps obj)" and l: "loads (dumps obj) = Some obj" by simp_all
  then have s: "py_strip (dumps obj) = dumps obj" and n: "dumps obj \<noteq> []"
    by (simp_all add: json_line_def py_strip_id)
  from Cons show ?case by (simp add: s n l)
qed

text \<open>
  C4. For every list of records that \<^verbatim>\<open>json.dumps\<close> writes as one line each and
  \<^verbatim>\<open>json.loads\<close> reads back from that line, \<^verbatim>\<open>load_jsonl_file\<close> on the file that
  \<^verbatim>\<open>save_jsonl_file\<close> wrote returns the records, equal and in order.
\<close>

theorem save_load_round_trip:
  assumes "\<forall>obj \<in> set jsonl_objects. json_line (dumps obj) \<and> loads (dumps obj) = Some obj"
  shows "load_jsonl_file loads filepath (save_jsonl_file dumps jsonl_objects filepath files)
           = Inr jsonl_objects"
proof -
  have "\<forall>l \<in> set (map dumps jsonl_objects). newline \<notin> set l \<and> carriage_return \<notin> set l"
    using assms by (auto simp: json_line_def)
  from file_lines_saved [OF this]
  have "file_lines (concat (map (\<lambda>obj. dumps obj @ [newline]) jsonl_objects))
          = map dumps jsonl_objects @ [[]]"
    by (simp add: o_def)
  with load_lines_dumps [OF assms] show ?thesis
    by (simp add: load_jsonl_file_def save_jsonl_file_def)
qed

text \<open>
  The round trip of a batch of two records, with the two lines \<^verbatim>\<open>json.dumps\<close> writes
  for them and \<^verbatim>\<open>json.loads\<close> on those lines.
\<close>

theorem save_load_round_trip_witness:
  \<open>json_line ''{"activity_id": 7}'' \<and> json_line ''{}'' \<and>
   load_jsonl_file
     (\<lambda>line. if line = ''{}'' then Some (JObj [])
              else if line = ''{"activity_id": 7}'' then Some (JObj [(''activity_id'', JNum 7)])
              else None)
     ''batch.jsonl''
     (save_jsonl_file (\<lambda>obj. if obj = JObj [] then ''{}'' else ''{"activity_id": 7}'')
        [JObj [(''activity_id'', JNum 7)], JObj []] ''batch.jsonl'' Map.empty)
   = Inr [JObj [(''activity_id'', JNum 7)], JObj []]\<close>
proof -
  let ?dumps = \<open>\<lambda>obj. if obj = JObj [] then ''{}'' else ''{"activity_id": 7}''\<close>
  let ?loads = \<open>\<lambda>line. if line = ''{}'' then Some (JObj [])
               else if line = ''{"activity_id": 7}'' then Some (JObj [(''activity_id'', JNum 7)])
               else None\<close>
  let ?objs = "[JObj [(''activity_id'', JNum 7)], JObj []]"
  have h: "\<forall>obj \<in> set ?objs. json_line (?dumps obj) \<and> ?loads (?dumps obj) = Some obj"
    by (simp add: json_line_def is_space_def newline_def carriage_return_def)
  from save_load_round_trip [of ?objs ?dumps ?loads "''batch.jsonl''" Map.empty, OF h] h
  show ?thesis by simp
qed

subsection \<open>Heart-rate randomization\<close>

text \<open>
  C9. For every call with \<open>min_hr \<ge> max_hr\<close>, \<^verbatim>\<open>modify_heartrate_to_abnormal\<close>
  raises the ValueError whatever the files hold (the input file is not read, it
  need not even exist) and leaves every file as it was: no output file is written.
\<close>

theorem invalid_range_fails_first:
  "min_hr \<ge> max_hr \<Longrightarrow>
   modify_heartrate_to_abnormal dumps loads rnd files jsonl_filepath output_filepath
     min_hr max_hr = (Inl ValueError, files)"
  by (simp add: modify_heartrate_to_abnormal_def)

theorem invalid_range_fails_first_witness:
  "(240 :: int) \<ge> 210 \<and>
   modify_heartrate_to_abnormal (\<lambda>obj. ''{}'') (\<lambda>line. None) (\<lambda>k. k)
     [''in.jsonl'' \<mapsto> ''not json''] ''in.jsonl'' ''out.jsonl'' 240 210 =
   (Inl ValueError, [''in.jsonl'' \<mapsto> ''not json''])"
  using invalid_range_fails_first [of 210 240 "\<lambda>obj. ''{}''" "\<lambda>line. None" "\<lambda>k. k"
      "[''in.jsonl'' \<mapsto> ''not json'']" "''in.jsonl''" "''out.jsonl''"]
  by simp

subsection \<open>Record assembly\<close>

lemma lower_char_space: "is_space c \<Longrightarrow> lower_char c = c"
  by (auto simp: is_space_def lower_char_def Let_def)

lemma not_space_rest:
  "lower_char c = CHR ''t'' \<Longrightarrow> \<not> is_space c"
  using lower_char_space [of c] by (auto simp: is_space_def)

lemma rstrip_keeps_prefix:
  assumes "pre \<noteq> []" "\<not> P (last pre)"
  shows "\<exists>w. rev (dropWhile P (rev (pre @ u))) = pre @ w"
proof -
  from assms have "dropWhile P (rev pre) = rev pre"
    by (cases pre rule: rev_cases) auto
  then have "dropWhile P (rev u @ rev pre) = dropWhile P (rev u) @ rev pre
      \<or> dropWhile P (rev u @ rev pre) = rev pre"
    by (simp add: dropWhile_append)
  then show ?thesis by auto
qed

lemma startswith_strip:
  assumes "startswith (py_lower (dropWhile is_space s)) p" and "p \<noteq> []"
    and "\<And>c. lower_char c = last p \<Longrightarrow> \<not> is_space c"
  shows "startswith (py_lower (py_strip s)) p"
proof -
  let ?t = "dropWhile is_space s"
  let ?pre = "take (length p) ?t"
  from assms(1) have m: "map lower_char ?pre = p"
    by (simp add: startswith_def py_lower_def take_map)
  then have len: "length ?pre = length p" by (metis length_map)
  with assms(2) have ne: "?pre \<noteq> []" by (metis length_0_conv)
  from m ne have "lower_char (last ?pre) = last p" by (metis last_map)
  then have "\<not> is_space (last ?pre)" by (rule assms(3))
  then have "\<exists>w. rev (dropWhile is_space (rev (?pre @ drop (length p) ?t))) = ?pre @ w"
    using ne by (intro rstrip_keeps_prefix)
  then obtain w where "py_strip s = ?pre @ w" by (auto simp: py_strip_def)
  with len m show ?thesis by (simp add: startswith_def py_lower_def)
qed

lemma is_rest_activity_name:
  assumes "startswith (py_lower (dropWhile is_space name)) ''rest''"
  shows "is_rest_activity (JStr name) = Inr True"
proof -
  have "name \<noteq> []"
  proof
    assume "name = []"
    with assms have "startswith [] ''rest''" by (simp add: py_lower_def)
    then show False by (simp add: startswith_def)
  qed
  moreover have "startswith (py_lower (py_strip name)) ''rest''"
    using assms by (rule startswith_strip) (simp_all add: not_space_rest)
  ultimately show ?thesis by (simp add: is_rest_activity_def name_starts_def)
qed

lemma delete_no_key: "map_of (AList.delete k al) k = None"
  by (simp add: delete_conv')

lemma map_of_json_of_compact:
  "map_of c k = None \<Longrightarrow> json_of_compact c = JObj c' \<Longrightarrow> map_of c' k = None"
  by (auto simp: json_of_compact_def map_of_map)

lemma map_of_json_of_quantiles:
  "map_of q k = None \<Longrightarrow> json_of_quantiles q = JObj q' \<Longrightarrow> map_of q' k = None"
  by (auto simp: json_of_quantiles_def map_of_map)

lemma stream_entries_rest:
  assumes "is_rest_activity activity_name = Inr True"
    and "stream_entries activity_name streams_data interval_seconds = Some (Inr entries)"
  shows "\<exists>c q. map_of c ''alt_m_csv'' = None \<and> map_of q ''altitude_m'' = None \<and>
           entries = (if c \<noteq> [] then [(''streams_compact'', json_of_compact c)] else []) @
                     (if q \<noteq> [] then [(''quantiles'', json_of_quantiles q)] else [])"
proof -
  obtain is_running where r: "is_running_activity activity_name = Inr is_running"
    using assms(2) by (cases "is_running_activity activity_name")
      (simp_all add: stream_entries_def)
  obtain compact_streams quantiles where
    s: "sample_streams_common streams_data interval_seconds is_running is_running is_running
          = Some (Inr (compact_streams, quantiles))"
    using assms r
    by (auto simp: stream_entries_def split: option.splits sum.splits)
  define q1 where "q1 = (if \<not> is_running \<and> quantiles \<noteq> []
                            then AList.delete ''distance_m'' quantiles else quantiles)"
  define c where "c = (if compact_streams \<noteq> []
                            then AList.delete ''alt_m_csv'' compact_streams
                            else compact_streams)"
  define q where "q = (if q1 \<noteq> [] then AList.delete ''altitude_m'' q1 else q1)"
  have "map_of c ''alt_m_csv'' = None" by (simp add: c_def delete_no_key)
  moreover have "map_of q ''altitude_m'' = None" by (simp add: q_def delete_no_key)
  moreover have "entries = (if c \<noteq> [] then [(''streams_compact'', json_of_compact c)] else []) @
                     (if q \<noteq> [] then [(''quantiles'', json_of_quantiles q)] else [])"
    using assms r s unfolding stream_entries_def q_def c_def q1_def
    by (simp add: Let_def)
  ultimately show ?thesis by blast
qed


lemma map_of_filter_append:
  "k \<notin> fst ` set xs \<Longrightarrow> map_of (filter P (xs @ ys)) k = map_of (filter P ys) k"
  by (induction xs) auto

text \<open>
  C8. For every activity whose name is a string that, after trimming leading white
  space and lowercasing, starts with \<^verbatim>\<open>rest\<close>, a record that
  \<^verbatim>\<open>create_activity_jsonl_object\<close> returns has no \<^verbatim>\<open>alt_m_csv\<close> key in its
  \<^verbatim>\<open>streams_compact\<close> and no \<^verbatim>\<open>altitude_m\<close> key in its \<^verbatim>\<open>quantiles\<close>, whatever
  the streams are.
\<close>

theorem rest_activity_drops_altitude:
  assumes "dict_get activity_data ''name'' = JStr name"
    and "startswith (py_lower (dropWhile is_space name)) ''rest''"
    and "create_activity_jsonl_object activity_data streams_data interval_seconds
           = Some (Inr record)"
  shows "(case map_of record ''streams_compact'' of
            None \<Rightarrow> True
          | Some (JObj streams_compact) \<Rightarrow> map_of streams_compact ''alt_m_csv'' = None
          | Some _ \<Rightarrow> False) \<and>
         (case map_of record ''quantiles'' of
            None \<Rightarrow> True
          | Some (JObj quantiles) \<Rightarrow> map_of quantiles ''altitude_m'' = None
          | Some _ \<Rightarrow> False)"
proof -
  define jsonl_obj where "jsonl_obj =
            [(''activity_id'', dict_get activity_data ''id''),
             (''name'', dict_get activity_data ''name''),
             (''type'', dict_get activity_data ''type''),
             (''start_date'', dict_get activity_data ''start_date''),
             (''distance_m'', dict_get activity_data ''distance''),
             (''moving_time_s'', dict_get activity_data ''moving_time''),
             (''elapsed_time_s'', dict_get activity_data ''elapsed_time''),
             (''total_elevation_gain_m'', dict_get activity_data ''total_elevation_gain''),
             (''average_speed_ms'', dict_get activity_data ''average_speed''),
             (''max_speed_ms'', dict_get activity_data ''max_speed''),
             (''average_heartrate_bpm'', dict_get activity_data ''average_heartrate''),
             (''max_heartrate_bpm'', dict_get activity_data ''max_heartrate''),
             (''calories'', dict_get activity_data ''calories'')]"
  have k1: "''streams_compact'' \<notin> fst ` set jsonl_obj"
    and k2: "''quantiles'' \<notin> fst ` set jsonl_obj"
    by (simp_all add: jsonl_obj_def)
  let ?keep = "\<lambda>(k :: string, v). v \<noteq> JNull"
  have rest: "is_rest_activity (JStr name) = Inr True"
    using assms(2) by (rule is_rest_activity_name)
  define added where "added =
            (case streams_data of
               None \<Rightarrow> Some (Inr [])
             | Some sd \<Rightarrow>
                 if sd = [] then Some (Inr [])
                 else stream_entries (JStr name) sd interval_seconds)"
  have "create_activity_jsonl_object activity_data streams_data interval_seconds =
          (case added of
            None \<Rightarrow> None
          | Some (Inl e) \<Rightarrow> Some (Inl e)
          | Some (Inr entries) \<Rightarrow> Some (Inr (filter ?keep (jsonl_obj @ entries))))"
    unfolding create_activity_jsonl_object_def added_def jsonl_obj_def Let_def assms(1) ..
  with assms(3) obtain entries where rec: "record = filter ?keep (jsonl_obj @ entries)"
    and add: "added = Some (Inr entries)"
    by (auto split: option.splits sum.splits)
  from add have ent: "entries = [] \<or>
              (\<exists>sd. stream_entries (JStr name) sd interval_seconds = Some (Inr entries))"
    by (auto simp: added_def split: option.splits if_splits)
  have m1: "map_of record ''streams_compact'' = map_of (filter ?keep entries) ''streams_compact''"
    unfolding rec using k1 by (rule map_of_filter_append)
  have m2: "map_of record ''quantiles'' = map_of (filter ?keep entries) ''quantiles''"
    unfolding rec using k2 by (rule map_of_filter_append)
  from ent show ?thesis
  proof
    assume "entries = []"
    with m1 m2 show ?thesis by simp
  next
    assume "\<exists>sd. stream_entries (JStr name) sd interval_seconds = Some (Inr entries)"
    then obtain sd where "stream_entries (JStr name) sd interval_seconds = Some (Inr entries)"
      by blast
    from stream_entries_rest [OF rest this] obtain c q where
      c: "map_of c ''alt_m_csv'' = None" and q: "map_of q ''altitude_m'' = None" and
      e: "entries = (if c \<noteq> [] then [(''streams_compact'', json_of_compact c)] else []) @
                     (if q \<noteq> [] then [(''quantiles'', json_of_quantiles q)] else [])"
      by blast
    obtain c' where c': "json_of_compact c = JObj c'" by (simp add: json_of_compact_def)
    obtain q' where q': "json_of_quantiles q = JObj q'" by (simp add: json_of_quantiles_def)
    from map_of_json_of_compact [OF c c'] have 1: "map_of c' ''alt_m_csv'' = None" .
    from map_of_json_of_quantiles [OF q q'] have 2: "map_of q' ''altitude_m'' = None" .
    from m1 m2 e c' q' 1 2 show ?thesis by simp
  qed
qed

text \<open>
  The activity \<^verbatim>\<open>Rest 12 (Apple JD)\<close> with an altitude stream: the record is
  assembled, and the altitude is in neither part of it.
\<close>

theorem rest_activity_drops_altitude_witness:
  "dict_get [(''id'', JNum 42), (''name'', JStr ''Rest 12 (Apple JD)'')] ''name''
     = JStr ''Rest 12 (Apple JD)'' \<and>
   startswith (py_lower (dropWhile is_space ''Rest 12 (Apple JD)'')) ''rest'' \<and>
   create_activity_jsonl_object
     [(''id'', JNum 42), (''name'', JStr ''Rest 12 (Apple JD)'')]
     (Some [\<lparr>stype = Some ''time'', sdata = [VNum 0, VNum 5]\<rparr>,
            \<lparr>stype = Some ''altitude'', sdata = [VNum 18, VNum 19]\<rparr>]) 5
   = Some (Inr
       [(''activity_id'', JNum 42), (''name'', JStr ''Rest 12 (Apple JD)''),
        (''streams_compact'',
         JObj [(''sampling'', JStr ''approx_5s''), (''time_s_csv'', JStr ''0,5'')]),
        (''quantiles'',
         JObj [(''time_s'',
                JObj [(''5'', JNum (1 / 4)), (''25'', JNum (5 / 4)), (''50'', JNum (5 / 2)),
                      (''75'', JNum (15 / 4)), (''95'', JNum (19 / 4))])])])"
proof -
  let ?activity = "[(''id'', JNum 42), (''name'', JStr ''Rest 12 (Apple JD)'')]"
  let ?streams = "Some [\<lparr>stype = Some ''time'', sdata = [VNum 0, VNum 5]\<rparr>,
            \<lparr>stype = Some ''altitude'', sdata = [VNum 18, VNum 19]\<rparr>]"
  let ?expected = "[(''activity_id'', JNum 42), (''name'', JStr ''Rest 12 (Apple JD)''),
        (''streams_compact'',
         JObj [(''sampling'', JStr ''approx_5s''), (''time_s_csv'', JStr ''0,5'')]),
        (''quantiles'',
         JObj [(''time_s'',
                JObj [(''5'', JNum (1 / 4)), (''25'', JNum (5 / 4)), (''50'', JNum (5 / 2)),
                      (''75'', JNum (15 / 4)), (''95'', JNum (19 / 4))])])]"
  have 1: "dict_get ?activity ''name'' = JStr ''Rest 12 (Apple JD)''"
    by (simp add: dict_get_def)
  have 2: "startswith (py_lower (dropWhile is_space ''Rest 12 (Apple JD)'')) ''rest''"
    by code_simp
  have 3: "create_activity_jsonl_object ?activity ?streams 5 = Some (Inr ?expected)"
    by code_simp
  from rest_activity_drops_altitude [OF 1 2 3] 1 2 3 show ?thesis by simp
qed

subsection \<open>Per-sample pace\<close>

lemma emap_Inr_map: "(\<And>x. x \<in> set xs \<Longrightarrow> f x = Inr (g x)) \<Longrightarrow> emap f xs = Inr (map g xs)"
  by (induction xs) simp_all

lemma numeric_if_present: "v \<noteq> VNone \<Longrightarrow> v \<noteq> VEmpty \<Longrightarrow> is_numeric_value v"
  by (cases v) simp_all

lemma pace_token_numeric:
  "is_numeric_value a \<Longrightarrow> is_numeric_value b \<Longrightarrow>
   pace_token dt a b =
     Inr (if num_of a - num_of b > 0 \<and> dt > 0
          then str_int (py_round ((dt / (num_of a - num_of b)) * 1000)) else [])"
  by (simp add: pace_token_def py_sub_def)

lemma pace_value_at_spec:
  assumes "length sampled_distance = length sampled_time"
    and "VEmpty \<notin> set sampled_distance" and "i < length sampled_time"
  shows "pace_value_at sampled_time sampled_distance i =
           Inr (if i = 0
                then (if 1 < length sampled_time
                      then spec_pace_between sampled_time sampled_distance 1 0 else [])
                else spec_pace_between sampled_time sampled_distance i (i - 1))"
proof -
  have num: "is_numeric_value (sampled_distance ! k)"
    if "k < length sampled_time" "sampled_distance ! k \<noteq> VNone" for k
  proof -
    from that assms(1) have "sampled_distance ! k \<in> set sampled_distance" by simp
    with assms(2) have "sampled_distance ! k \<noteq> VEmpty" by metis
    with that(2) show ?thesis by (rule numeric_if_present)
  qed
  show ?thesis
  proof (cases "i = 0")
    case True
    show ?thesis
    proof (cases "1 < length sampled_time")
      case False
      with True show ?thesis by (simp add: pace_value_at_def)
    next
      case l: True
      then have 0: "0 < length sampled_time" by linarith
      show ?thesis
        using True l 0 assms(1) num [OF 0] num [OF l]
        by (auto simp: pace_value_at_def py_get_def spec_pace_between_def pace_token_numeric Let_def)
    qed
  next
    case False
    then have p: "i - 1 < length sampled_time" using assms(3) by simp
    show ?thesis
      using False assms(1,3) p num [OF assms(3)] num [OF p]
      by (simp add: pace_value_at_def py_get_def spec_pace_between_def pace_token_numeric Let_def)
  qed
qed

lemma calculate_pace_values_series:
  assumes "length sampled_distance = length sampled_time"
    and "VEmpty \<notin> set sampled_distance"
  shows "calculate_pace_values sampled_time sampled_distance =
           Inr (spec_pace_series sampled_time sampled_distance)"
  unfolding calculate_pace_values_def spec_pace_series_def
  by (rule emap_Inr_map) (simp add: pace_value_at_spec [OF assms])

lemma scenario_indices:
  "find_sampling_indices [0, 1, 2, 3, 4, 5, 6, 7, 8, 9, 10] 5 = Some [0, 5, 10]"
  by code_simp

lemma scenario_record:
  "sample_streams_at_intervals
     [\<lparr>stype = Some ''time'',
       sdata = [VNum 0, VNum 1, VNum 2, VNum 3, VNum 4, VNum 5, VNum 6, VNum 7, VNum 8,
                VNum 9, VNum 10]\<rparr>,
      \<lparr>stype = Some ''distance'',
       sdata = [VNum 0, VNum 10, VNum 20, VNum 30, VNum 40, VNum 50, VNum 60, VNum 70,
                VNum 80, VNum 90, VNum 100]\<rparr>] 5 =
   Some (Inr ([(''sampling'', ''approx_5s''), (''time_s_csv'', ''0,5,10''),
               (''pace_s_per_km_csv'', ''100,100,100'')],
              [(''time_s'', [(''5'', 1 / 2), (''25'', 5 / 2), (''50'', 5), (''75'', 15 / 2),
                             (''95'', 19 / 2)]),
               (''distance_m'', [(''5'', 5), (''25'', 25), (''50'', 50), (''75'', 75),
                                 (''95'', 95)]),
               (''pace_s_per_km'', [(''5'', 100), (''25'', 100), (''50'', 100), (''75'', 100),
                                    (''95'', 100)])]))"
  by code_simp

text \<open>
  C1. For the time series 0, 1, ..., 10 and the distance series 0, 10, ..., 100 with
  an interval of 5 seconds, \<^verbatim>\<open>_find_sampling_indices\<close> returns the indices 0, 5, 10,
  the compact record has \<^verbatim>\<open>time_s_csv\<close> \<open>0,5,10\<close> and a \<^verbatim>\<open>pace_s_per_km_csv\<close> that
  begins with \<open>100\<close>; and for all sampled times and distances (one distance, a number
  or \<^verbatim>\<open>None\<close>, per sampled time) \<^verbatim>\<open>_calculate_pace_values\<close> returns the pace
  series: the deltas to the previous sampled point at every position \<open>i > 0\<close>, the
  deltas to the next sampled point at position 0.
\<close>

theorem pace_scenario_and_series:
  "find_sampling_indices [0, 1, 2, 3, 4, 5, 6, 7, 8, 9, 10] 5 = Some [0, 5, 10] \<and>
   sample_streams_at_intervals
     [\<lparr>stype = Some ''time'',
       sdata = [VNum 0, VNum 1, VNum 2, VNum 3, VNum 4, VNum 5, VNum 6, VNum 7, VNum 8,
                VNum 9, VNum 10]\<rparr>,
      \<lparr>stype = Some ''distance'',
       sdata = [VNum 0, VNum 10, VNum 20, VNum 30, VNum 40, VNum 50, VNum 60, VNum 70,
                VNum 80, VNum 90, VNum 100]\<rparr>] 5 =
   Some (Inr ([(''sampling'', ''approx_5s''), (''time_s_csv'', ''0,5,10''),
               (''pace_s_per_km_csv'', ''100,100,100'')],
              [(''time_s'', [(''5'', 1 / 2), (''25'', 5 / 2), (''50'', 5), (''75'', 15 / 2),
                             (''95'', 19 / 2)]),
               (''distance_m'', [(''5'', 5), (''25'', 25), (''50'', 50), (''75'', 75),
                                 (''95'', 95)]),
               (''pace_s_per_km'', [(''5'', 100), (''25'', 100), (''50'', 100), (''75'', 100),
                                    (''95'', 100)])])) \<and>
   (length sampled_distance = length sampled_time \<and> VEmpty \<notin> set sampled_distance \<longrightarrow>
    calculate_pace_values sampled_time sampled_distance =
      Inr (spec_pace_series sampled_time sampled_distance))"
  using scenario_indices scenario_record calculate_pace_values_series by blast

theorem pace_scenario_and_series_witness:
  "length [VNum 0, VNum 50, VNum 100] = length [0, 5, 10 :: rat] \<and>
   VEmpty \<notin> set [VNum 0, VNum 50, VNum 100] \<and>
   calculate_pace_values [0, 5, 10] [VNum 0, VNum 50, VNum 100] = Inr [''100'', ''100'', ''100'']"
proof -
  have "spec_pace_series [0, 5, 10] [VNum 0, VNum 50, VNum 100] = [''100'', ''100'', ''100'']"
    by code_simp
  with pace_scenario_and_series [of "[VNum 0, VNum 50, VNum 100]" "[0, 5, 10]"]
  show ?thesis by simp
qed

subsection \<open>Alignment of the compact record\<close>

lemma of_char_digit: "d < 10 \<Longrightarrow> of_char (digit_char d) = (48 + d :: nat)"
  by (simp add: digit_char_def)

lemma digit_char_not_comma: "d < 10 \<Longrightarrow> digit_char d \<noteq> CHR '',''"
proof
  assume d: "d < 10" and "digit_char d = CHR '',''"
  then have "(of_char (digit_char d) :: nat) = of_char CHR '',''" by simp
  with of_char_digit [OF d] show False by simp
qed

lemma str_nat_no_comma: "CHR '','' \<notin> set (str_nat n)"
proof (induction n rule: str_nat.induct)
  case (1 n)
  show ?case
  proof (cases "n < 10")
    case True
    then show ?thesis
      using digit_char_not_comma [of n] by (subst str_nat.simps) auto
  next
    case False
    have "n mod 10 < 10" by simp
    from digit_char_not_comma [OF this] 1 False show ?thesis
      by (subst str_nat.simps) auto
  qed
qed

lemma str_nat_not_empty: "str_nat n \<noteq> []"
  by (subst str_nat.simps) simp

lemma str_int_no_comma: "CHR '','' \<notin> set (str_int i)"
  by (simp add: str_int_def str_nat_no_comma)

lemma str_int_not_empty: "str_int i \<noteq> []"
  by (simp add: str_int_def str_nat_not_empty)

lemma fmt_2f_no_comma: "CHR '','' \<notin> set (fmt_2f x)"
proof -
  have "digit_char (k mod 10) \<noteq> CHR '',''" for k
    by (rule digit_char_not_comma) simp
  then have "CHR '','' \<noteq> digit_char (k mod 10)" for k
    by (rule not_sym)
  then show ?thesis
    by (simp add: fmt_2f_def Let_def str_nat_no_comma)
qed

lemma fmt_2f_not_empty: "fmt_2f x \<noteq> []"
  by (simp add: fmt_2f_def Let_def)

lemma py_split_no_sep: "c \<notin> set s \<Longrightarrow> py_split c s = [s]"
  by (induction s) auto

lemma py_split_join:
  "xs \<noteq> [] \<Longrightarrow> (\<forall>x \<in> set xs. c \<notin> set x) \<Longrightarrow> py_split c (py_join c xs) = xs"
proof (induction c xs rule: py_join.induct)
  case (1 c)
  then show ?case by simp
next
  case (2 c x)
  then show ?case by (simp add: py_split_no_sep)
next
  case (3 c x y ys)
  then show ?case using py_split_append [of c x "py_join c (y # ys)"] by simp
qed

lemma emap_Inr_length: "emap f xs = Inr ys \<Longrightarrow> length ys = length xs"
  by (induction xs arbitrary: ys) (auto split: sum.splits)

lemma emap_Inr_nth:
  "emap f xs = Inr ys \<Longrightarrow> j < length xs \<Longrightarrow> f (xs ! j) = Inr (ys ! j)"
proof (induction xs arbitrary: ys j)
  case Nil
  then show ?case by simp
next
  case (Cons x xs)
  then show ?case by (cases j) (auto split: sum.splits)
qed

lemma emap_Inr_all:
  "emap f xs = Inr ys \<Longrightarrow> y \<in> set ys \<Longrightarrow> \<exists>x \<in> set xs. f x = Inr y"
  by (induction xs arbitrary: ys) (auto split: sum.splits)

lemma format_int_token:
  "format_int v = Inr t \<Longrightarrow> CHR '','' \<notin> set t \<and> (t = [] \<longleftrightarrow> v = VNone)"
  by (cases v) (auto simp: str_int_no_comma str_int_not_empty)

lemma format_velocity_token:
  "format_velocity v = Inr t \<Longrightarrow> CHR '','' \<notin> set t \<and> (t = [] \<longleftrightarrow> v = VNone)"
  by (cases v) (auto simp: format_velocity_def fmt_2f_no_comma fmt_2f_not_empty split: if_splits)

lemma sample_stream_data_nth:
  "j < length idx \<Longrightarrow>
   (sample_stream_data data idx ! j = VNone) =
   (\<not> idx ! j < length data \<or> data ! (idx ! j) = VNone)"
  by (auto simp: sample_stream_data_def)

lemma csv_field_entries:
  assumes "csv_field streams_dict idx stream_type key f = Inr part"
    and "idx \<noteq> []"
    and tok: "\<And>v t. f v = Inr t \<Longrightarrow> CHR '','' \<notin> set t \<and> (t = [] \<longleftrightarrow> v = VNone)"
  shows "\<forall>(k, csv) \<in> set part. k = key \<and>
           (\<exists>data. map_of streams_dict stream_type = Some data \<and>
              length (py_split CHR '','' csv) = length idx \<and>
              (\<forall>j < length idx. (py_split CHR '','' csv ! j = []) =
                  (\<not> idx ! j < length data \<or> data ! (idx ! j) = VNone)))"
proof (cases "map_of streams_dict stream_type")
  case None
  with assms(1) show ?thesis by (simp add: csv_field_def)
next
  case (Some data)
  let ?samples = "sample_stream_data data idx"
  from assms(1) Some obtain toks where
    toks: "emap f ?samples = Inr toks" and part: "part = [(key, py_join CHR '','' toks)]"
    by (auto simp: csv_field_def format_sampled_values_def split: sum.splits)
  have len: "length toks = length idx"
    using emap_Inr_length [OF toks] by (simp add: sample_stream_data_def)
  with assms(2) have ne: "toks \<noteq> []" by auto
  have "\<forall>t \<in> set toks. CHR '','' \<notin> set t"
    using emap_Inr_all [OF toks] tok by blast
  with ne have sp: "py_split CHR '','' (py_join CHR '','' toks) = toks"
    by (rule py_split_join)
  have "(toks ! j = []) = (\<not> idx ! j < length data \<or> data ! (idx ! j) = VNone)"
    if j: "j < length idx" for j
  proof -
    from j have "j < length ?samples" by (simp add: sample_stream_data_def)
    from emap_Inr_nth [OF toks this] tok
    have "(toks ! j = []) = (?samples ! j = VNone)" by blast
    with sample_stream_data_nth [OF j] show ?thesis by simp
  qed
  with Some part sp len show ?thesis by simp
qed

lemma pace_token_no_comma: "pace_token dt a b = Inr t \<Longrightarrow> CHR '','' \<notin> set t"
  by (auto simp: pace_token_def str_int_no_comma split: sum.splits if_splits)

lemma pace_value_at_token:
  assumes "pace_value_at st sd i = Inr t"
  shows "CHR '','' \<notin> set t \<and> (i < length sd \<and> sd ! i = VNone \<longrightarrow> t = [])"
  using assms
  by (auto simp: pace_value_at_def py_get_def Let_def dest: pace_token_no_comma
      split: if_splits sum.splits)

lemma pace_field_entries:
  assumes "pace_field streams_dict st idx = Inr part"
    and "idx \<noteq> []" and "length st = length idx"
  shows "\<forall>(k, csv) \<in> set part. k = ''pace_s_per_km_csv'' \<and>
           (\<exists>distance. map_of streams_dict ''distance'' = Some distance \<and>
              length (py_split CHR '','' csv) = length idx \<and>
              (\<forall>j < length idx. \<not> idx ! j < length distance \<or> distance ! (idx ! j) = VNone
                 \<longrightarrow> py_split CHR '','' csv ! j = []))"
proof (cases "map_of streams_dict ''distance''")
  case None
  with assms(1) show ?thesis by (simp add: pace_field_def)
next
  case (Some distance)
  let ?sd = "sample_stream_data distance idx"
  from assms(1) Some obtain toks where
    toks: "emap (pace_value_at st ?sd) [0..<length st] = Inr toks"
    and part: "part = [(''pace_s_per_km_csv'', py_join CHR '','' toks)]"
    by (auto simp: pace_field_def calculate_pace_values_def split: sum.splits)
  have len: "length toks = length idx"
    using emap_Inr_length [OF toks] assms(3) by simp
  with assms(2) have ne: "toks \<noteq> []" by auto
  have "\<forall>t \<in> set toks. CHR '','' \<notin> set t"
    using emap_Inr_all [OF toks] pace_value_at_token by blast
  with ne have sp: "py_split CHR '','' (py_join CHR '','' toks) = toks"
    by (rule py_split_join)
  have "toks ! j = []"
    if j: "j < length idx" and m: "\<not> idx ! j < length distance \<or> distance ! (idx ! j) = VNone"
    for j
  proof -
    from j assms(3) have "j < length [0..<length st]" by simp
    from emap_Inr_nth [OF toks this] j assms(3)
    have "pace_value_at st ?sd j = Inr (toks ! j)" by simp
    moreover have "j < length ?sd" using j by (simp add: sample_stream_data_def)
    moreover have "?sd ! j = VNone" using sample_stream_data_nth [OF j] m by simp
    ultimately show ?thesis using pace_value_at_token by blast
  qed
  with Some part sp len show ?thesis by simp
qed

lemma econcat_two:
  "econcat (p # ps) = Inr r \<Longrightarrow> \<exists>xs ys. p = Inr xs \<and> econcat ps = Inr ys \<and> r = xs @ ys"
  by (auto split: sum.splits)

lemma find_sampling_indices_distinct:
  "find_sampling_indices time_data interval_seconds = Some idx \<Longrightarrow> distinct idx"
proof -
  have d: "distinct ([] :: nat list)" by simp
  assume "find_sampling_indices time_data interval_seconds = Some idx"
  then show ?thesis
    using unique_loop_props [OF d]
    by (auto simp: find_sampling_indices_def split: if_splits option.splits)
qed

lemma sample_streams_common_stages:
  assumes "sample_streams_common streams_data interval_seconds filter_moving include_pace
             include_velocity = Some (Inr (result, quantiles_result))"
    and "result \<noteq> []"
  shows "\<exists>streams_dict time_data unique_indices.
           rebase_streams streams_data filter_moving = Inr (Some (streams_dict, time_data)) \<and>
           find_sampling_indices time_data interval_seconds = Some unique_indices \<and>
           unique_indices \<noteq> [] \<and>
           compact_record streams_dict time_data unique_indices interval_seconds include_pace
             include_velocity = Inr result"
  using assms
  by (auto simp: sample_streams_common_def
      split: sum.splits option.splits prod.splits if_splits)

lemma compact_record_parts:
  assumes "compact_record streams_dict time_data idx interval_seconds include_pace
             include_velocity = Inr result"
  shows "\<exists>pace hr alt vel cad.
      (if include_pace then pace_field streams_dict (map (\<lambda>i. time_data ! i) idx) idx
       else Inr []) = Inr pace \<and>
      csv_field streams_dict idx ''heartrate'' ''hr_bpm_csv'' format_int = Inr hr \<and>
      csv_field streams_dict idx ''altitude'' ''alt_m_csv'' format_int = Inr alt \<and>
      (if include_velocity
       then csv_field streams_dict idx ''velocity_smooth'' ''velocity_smooth_ms_csv''
              format_velocity
       else Inr []) = Inr vel \<and>
      csv_field streams_dict idx ''cadence'' ''cadence_spm_csv'' format_int = Inr cad \<and>
      result =
        [(''sampling'', ''approx_'' @ str_int (py_int interval_seconds) @ ''s''),
         (''time_s_csv'',
          py_join CHR '','' (map (\<lambda>t. str_int (py_round t)) (map (\<lambda>i. time_data ! i) idx)))]
        @ pace @ hr @ alt @ vel @ cad"
proof -
  from assms [unfolded compact_record_def Let_def]
  obtain r1 where 1: "econcat
           [(if include_pace then pace_field streams_dict (map (\<lambda>i. time_data ! i) idx) idx
             else Inr []),
            csv_field streams_dict idx ''heartrate'' ''hr_bpm_csv'' format_int,
            csv_field streams_dict idx ''altitude'' ''alt_m_csv'' format_int,
            (if include_velocity
             then csv_field streams_dict idx ''velocity_smooth''
                    ''velocity_smooth_ms_csv'' format_velocity
             else Inr []),
            csv_field streams_dict idx ''cadence'' ''cadence_spm_csv'' format_int] = Inr r1"
    and r: "result = [(''sampling'', ''approx_'' @ str_int (py_int interval_seconds) @ ''s''),
         (''time_s_csv'',
          py_join CHR '','' (map (\<lambda>t. str_int (py_round t)) (map (\<lambda>i. time_data ! i) idx)))]
        @ r1"
    by (blast dest: econcat_two)
  from econcat_two [OF 1] obtain pace r2 where p: "(if include_pace then pace_field streams_dict (map (\<lambda>i. time_data ! i) idx) idx
             else Inr []) = Inr pace" and 2: "econcat
           [csv_field streams_dict idx ''heartrate'' ''hr_bpm_csv'' format_int,
            csv_field streams_dict idx ''altitude'' ''alt_m_csv'' format_int,
            (if include_velocity
             then csv_field streams_dict idx ''velocity_smooth''
                    ''velocity_smooth_ms_csv'' format_velocity
             else Inr []),
            csv_field streams_dict idx ''cadence'' ''cadence_spm_csv'' format_int] = Inr r2"
    and r1: "r1 = pace @ r2" by blast
  from econcat_two [OF 2] obtain hr r3 where h: "csv_field streams_dict idx ''heartrate'' ''hr_bpm_csv'' format_int = Inr hr"
    and 3: "econcat
           [csv_field streams_dict idx ''altitude'' ''alt_m_csv'' format_int,
            (if include_velocity
             then csv_field streams_dict idx ''velocity_smooth''
                    ''velocity_smooth_ms_csv'' format_velocity
             else Inr []),
            csv_field streams_dict idx ''cadence'' ''cadence_spm_csv'' format_int] = Inr r3"
    and r2: "r2 = hr @ r3" by blast
  from econcat_two [OF 3] obtain alt r4 where a: "csv_field streams_dict idx ''altitude'' ''alt_m_csv'' format_int = Inr alt"
    and 4: "econcat
           [(if include_velocity
             then csv_field streams_dict idx ''velocity_smooth''
                    ''velocity_smooth_ms_csv'' format_velocity
             else Inr []),
            csv_field streams_dict idx ''cadence'' ''cadence_spm_csv'' format_int] = Inr r4"
    and r3: "r3 = alt @ r4" by blast
  from econcat_two [OF 4] obtain vel r5 where v: "(if include_velocity
             then csv_field streams_dict idx ''velocity_smooth''
                    ''velocity_smooth_ms_csv'' format_velocity
             else Inr []) = Inr vel"
    and 5: "econcat [csv_field streams_dict idx ''cadence'' ''cadence_spm_csv'' format_int] = Inr r5"
    and r4: "r4 = vel @ r5" by blast
  from econcat_two [OF 5] obtain cad where c: "csv_field streams_dict idx ''cadence'' ''cadence_spm_csv'' format_int = Inr cad"
    and r5: "r5 = cad" by auto
  from p h a v c r r1 r2 r3 r4 r5 show ?thesis by simp
qed

text \<open>
  C3. Whenever \<^verbatim>\<open>_sample_streams_common\<close> returns a non-empty compact record, the
  record was built from the de-duplicated indices that \<^verbatim>\<open>_find_sampling_indices\<close>
  returned for the rebased time stream, and every field of the record but
  \<^verbatim>\<open>sampling\<close> (each \<^verbatim>\<open>_csv\<close> field) splits at its commas into exactly one entry per
  index. In the heart-rate, altitude, velocity and cadence fields the entry of an
  index is empty exactly when the stream has no value there (the stream is too
  short, or the value is \<^verbatim>\<open>None\<close>); in the pace field the entry is empty when the
  distance has no value there.
\<close>

theorem csv_fields_aligned:
  assumes run: "sample_streams_common streams_data interval_seconds filter_moving include_pace
                  include_velocity = Some (Inr (result, quantiles_result))"
    and ne: "result \<noteq> []"
  shows "\<exists>streams_dict time_data unique_indices.
           rebase_streams streams_data filter_moving = Inr (Some (streams_dict, time_data)) \<and>
           find_sampling_indices time_data interval_seconds = Some unique_indices \<and>
           unique_indices \<noteq> [] \<and> distinct unique_indices \<and>
           (\<forall>(key, csv) \<in> set result.
              key \<noteq> ''sampling'' \<longrightarrow>
              length (py_split CHR '','' csv) = length unique_indices) \<and>
           (\<forall>(stream_type, key) \<in>
                set [(''heartrate'', ''hr_bpm_csv''), (''altitude'', ''alt_m_csv''),
                     (''velocity_smooth'', ''velocity_smooth_ms_csv''),
                     (''cadence'', ''cadence_spm_csv'')].
              \<forall>csv. map_of result key = Some csv \<longrightarrow>
                (\<exists>data. map_of streams_dict stream_type = Some data \<and>
                   (\<forall>j < length unique_indices.
                      (py_split CHR '','' csv ! j = []) =
                      (\<not> unique_indices ! j < length data \<or>
                       data ! (unique_indices ! j) = VNone)))) \<and>
           (\<forall>csv. map_of result ''pace_s_per_km_csv'' = Some csv \<longrightarrow>
              (\<exists>distance. map_of streams_dict ''distance'' = Some distance \<and>
                 (\<forall>j < length unique_indices.
                    \<not> unique_indices ! j < length distance \<or>
                    distance ! (unique_indices ! j) = VNone \<longrightarrow>
                    py_split CHR '','' csv ! j = [])))"
proof -
  from sample_streams_common_stages [OF run ne]
  obtain streams_dict time_data idx where
    rb: "rebase_streams streams_data filter_moving = Inr (Some (streams_dict, time_data))"
    and fi: "find_sampling_indices time_data interval_seconds = Some idx"
    and nz: "idx \<noteq> []"
    and cr: "compact_record streams_dict time_data idx interval_seconds include_pace
               include_velocity = Inr result"
    by blast
  let ?st = "map (\<lambda>i. time_data ! i) idx"
  let ?time = "py_join CHR '','' (map (\<lambda>t. str_int (py_round t)) ?st)"
  from compact_record_parts [OF cr] obtain pace hr alt vel cad where
    pace: "(if include_pace then pace_field streams_dict ?st idx else Inr []) = Inr pace"
    and hr: "csv_field streams_dict idx ''heartrate'' ''hr_bpm_csv'' format_int = Inr hr"
    and alt: "csv_field streams_dict idx ''altitude'' ''alt_m_csv'' format_int = Inr alt"
    and vel: "(if include_velocity
               then csv_field streams_dict idx ''velocity_smooth'' ''velocity_smooth_ms_csv''
                      format_velocity
               else Inr []) = Inr vel"
    and cad: "csv_field streams_dict idx ''cadence'' ''cadence_spm_csv'' format_int = Inr cad"
    and res: "result =
        [(''sampling'', ''approx_'' @ str_int (py_int interval_seconds) @ ''s''),
         (''time_s_csv'', ?time)] @ pace @ hr @ alt @ vel @ cad"
    by blast
  have dist: "distinct idx" using fi by (rule find_sampling_indices_distinct)
  have time: "length (py_split CHR '','' ?time) = length idx"
  proof -
    have "py_split CHR '','' ?time = map (\<lambda>t. str_int (py_round t)) ?st"
      using nz by (intro py_split_join) (auto simp: str_int_no_comma)
    then show ?thesis by simp
  qed
  have P_pace: "\<forall>(k, csv) \<in> set pace. k = ''pace_s_per_km_csv'' \<and>
           (\<exists>distance. map_of streams_dict ''distance'' = Some distance \<and>
              length (py_split CHR '','' csv) = length idx \<and>
              (\<forall>j < length idx. \<not> idx ! j < length distance \<or> distance ! (idx ! j) = VNone
                 \<longrightarrow> py_split CHR '','' csv ! j = []))"
  proof (cases include_pace)
    case True
    with pace have "pace_field streams_dict ?st idx = Inr pace" by simp
    from pace_field_entries [OF this nz] show ?thesis by simp
  next
    case False
    with pace show ?thesis by simp
  qed
  note P_hr = csv_field_entries [OF hr nz format_int_token]
  note P_alt = csv_field_entries [OF alt nz format_int_token]
  note P_cad = csv_field_entries [OF cad nz format_int_token]
  have P_vel: "\<forall>(k, csv) \<in> set vel. k = ''velocity_smooth_ms_csv'' \<and>
           (\<exists>data. map_of streams_dict ''velocity_smooth'' = Some data \<and>
              length (py_split CHR '','' csv) = length idx \<and>
              (\<forall>j < length idx. (py_split CHR '','' csv ! j = []) =
                  (\<not> idx ! j < length data \<or> data ! (idx ! j) = VNone)))"
  proof (cases include_velocity)
    case True
    with vel have "csv_field streams_dict idx ''velocity_smooth'' ''velocity_smooth_ms_csv''
                      format_velocity = Inr vel" by simp
    from csv_field_entries [OF this nz format_velocity_token] show ?thesis by simp
  next
    case False
    with vel show ?thesis by simp
  qed
  have k_pace: "k = ''pace_s_per_km_csv''" if "(k, c) \<in> set pace" for k c
    using P_pace that by blast
  have k_hr: "k = ''hr_bpm_csv''" if "(k, c) \<in> set hr" for k c
    using P_hr that by blast
  have k_alt: "k = ''alt_m_csv''" if "(k, c) \<in> set alt" for k c
    using P_alt that by blast
  have k_vel: "k = ''velocity_smooth_ms_csv''" if "(k, c) \<in> set vel" for k c
    using P_vel that by blast
  have k_cad: "k = ''cadence_spm_csv''" if "(k, c) \<in> set cad" for k c
    using P_cad that by blast
  have mem: "(k, csv) \<in> set result \<Longrightarrow>
      k = ''sampling'' \<or> (k = ''time_s_csv'' \<and> csv = ?time) \<or> (k, csv) \<in> set pace \<or>
      (k, csv) \<in> set hr \<or> (k, csv) \<in> set alt \<or> (k, csv) \<in> set vel \<or> (k, csv) \<in> set cad"
    for k csv
    unfolding res by auto
  have len: "\<forall>(key, csv) \<in> set result.
              key \<noteq> ''sampling'' \<longrightarrow> length (py_split CHR '','' csv) = length idx"
  proof (clarify)
    fix k csv assume "(k, csv) \<in> set result" "k \<noteq> ''sampling''"
    with mem [of k csv] consider "csv = ?time" | "(k, csv) \<in> set pace" | "(k, csv) \<in> set hr"
      | "(k, csv) \<in> set alt" | "(k, csv) \<in> set vel" | "(k, csv) \<in> set cad" by blast
    then show "length (py_split CHR '','' csv) = length idx"
    proof cases
      case 1 with time show ?thesis by simp
    next
      case 2 with P_pace show ?thesis by blast
    next
      case 3 with P_hr show ?thesis by blast
    next
      case 4 with P_alt show ?thesis by blast
    next
      case 5 with P_vel show ?thesis by blast
    next
      case 6 with P_cad show ?thesis by blast
    qed
  qed
  have f_hr: "\<exists>data. map_of streams_dict ''heartrate'' = Some data \<and>
                   (\<forall>j < length idx.
                      (py_split CHR '','' csv ! j = []) =
                      (\<not> idx ! j < length data \<or> data ! (idx ! j) = VNone))"
    if "map_of result ''hr_bpm_csv'' = Some csv" for csv
  proof -
    from that have m: "(''hr_bpm_csv'', csv) \<in> set result" by (rule map_of_SomeD)
    from mem [OF m] have "(''hr_bpm_csv'', csv) \<in> set hr"
      by (auto dest: k_pace k_hr k_alt k_vel k_cad)
    with P_hr show ?thesis by blast
  qed
  have f_alt: "\<exists>data. map_of streams_dict ''altitude'' = Some data \<and>
                   (\<forall>j < length idx.
                      (py_split CHR '','' csv ! j = []) =
                      (\<not> idx ! j < length data \<or> data ! (idx ! j) = VNone))"
    if "map_of result ''alt_m_csv'' = Some csv" for csv
  proof -
    from that have m: "(''alt_m_csv'', csv) \<in> set result" by (rule map_of_SomeD)
    from mem [OF m] have "(''alt_m_csv'', csv) \<in> set alt"
      by (auto dest: k_pace k_hr k_alt k_vel k_cad)
    with P_alt show ?thesis by blast
  qed
  have f_vel: "\<exists>data. map_of streams_dict ''velocity_smooth'' = Some data \<and>
                   (\<forall>j < length idx.
                      (py_split CHR '','' csv ! j = []) =
                      (\<not> idx ! j < length data \<or> data ! (idx ! j) = VNone))"
    if "map_of result ''velocity_smooth_ms_csv'' = Some csv" for csv
  proof -
    from that have m: "(''velocity_smooth_ms_csv'', csv) \<in> set result" by (rule map_of_SomeD)
    from mem [OF m] have "(''velocity_smooth_ms_csv'', csv) \<in> set vel"
      by (auto dest: k_pace k_hr k_alt k_vel k_cad)
    with P_vel show ?thesis by blast
  qed
  have f_cad: "\<exists>data. map_of streams_dict ''cadence'' = Some data \<and>
                   (\<forall>j < length idx.
                      (py_split CHR '','' csv ! j = []) =
                      (\<not> idx ! j < length data \<or> data ! (idx ! j) = VNone))"
    if "map_of result ''cadence_spm_csv'' = Some csv" for csv
  proof -
    from that have m: "(''cadence_spm_csv'', csv) \<in> set result" by (rule map_of_SomeD)
    from mem [OF m] have "(''cadence_spm_csv'', csv) \<in> set cad"
      by (auto dest: k_pace k_hr k_alt k_vel k_cad)
    with P_cad show ?thesis by blast
  qed
  have pacef: "\<exists>distance. map_of streams_dict ''distance'' = Some distance \<and>
                 (\<forall>j < length idx.
                    \<not> idx ! j < length distance \<or> distance ! (idx ! j) = VNone \<longrightarrow>
                    py_split CHR '','' csv ! j = [])"
    if "map_of result ''pace_s_per_km_csv'' = Some csv" for csv
  proof -
    from that have m: "(''pace_s_per_km_csv'', csv) \<in> set result" by (rule map_of_SomeD)
    from mem [OF m]
    have "(''pace_s_per_km_csv'', csv) \<in> set pace"
      by (auto dest: k_pace k_hr k_alt k_vel k_cad)
    with P_pace show ?thesis by blast
  qed
  from f_hr f_alt f_vel f_cad
  have field: "\<forall>(stream_type, key) \<in>
                set [(''heartrate'', ''hr_bpm_csv''), (''altitude'', ''alt_m_csv''),
                     (''velocity_smooth'', ''velocity_smooth_ms_csv''),
                     (''cadence'', ''cadence_spm_csv'')].
              \<forall>csv. map_of result key = Some csv \<longrightarrow>
                (\<exists>data. map_of streams_dict stream_type = Some data \<and>
                   (\<forall>j < length idx.
                      (py_split CHR '','' csv ! j = []) =
                      (\<not> idx ! j < length data \<or> data ! (idx ! j) = VNone)))"
    by simp
  from rb fi nz dist len field pacef show ?thesis by blast
qed

text \<open>
  A heart-rate stream with a \<^verbatim>\<open>None\<close> and an altitude stream shorter than the time
  stream: \<open>60,,62\<close> and \<open>18,,\<close>, three entries each.
\<close>

theorem csv_fields_aligned_witness:
  "sample_streams_common
     [\<lparr>stype = Some ''time'', sdata = [VNum 0, VNum 5, VNum 10]\<rparr>,
      \<lparr>stype = Some ''heartrate'', sdata = [VNum 60, VNone, VNum 62]\<rparr>,
      \<lparr>stype = Some ''altitude'', sdata = [VNum 18]\<rparr>] 5 False False False =
   Some (Inr ([(''sampling'', ''approx_5s''), (''time_s_csv'', ''0,5,10''),
               (''hr_bpm_csv'', ''60,,62''), (''alt_m_csv'', ''18,,'')],
              [(''time_s'', [(''5'', 1 / 2), (''25'', 5 / 2), (''50'', 5), (''75'', 15 / 2),
                             (''95'', 19 / 2)]),
               (''hr_bpm'', [(''5'', 601 / 10), (''25'', 121 / 2), (''50'', 61),
                             (''75'', 123 / 2), (''95'', 619 / 10)]),
               (''altitude_m'', [(''5'', 18), (''25'', 18), (''50'', 18), (''75'', 18),
                                 (''95'', 18)])])) \<and>
   (\<exists>streams_dict time_data unique_indices.
      rebase_streams
        [\<lparr>stype = Some ''time'', sdata = [VNum 0, VNum 5, VNum 10]\<rparr>,
         \<lparr>stype = Some ''heartrate'', sdata = [VNum 60, VNone, VNum 62]\<rparr>,
         \<lparr>stype = Some ''altitude'', sdata = [VNum 18]\<rparr>] False
        = Inr (Some (streams_dict, time_data)) \<and>
      find_sampling_indices time_data 5 = Some unique_indices \<and>
      length (py_split CHR '','' ''0,5,10'') = length unique_indices \<and>
      length (py_split CHR '','' ''60,,62'') = length unique_indices \<and>
      length (py_split CHR '','' ''18,,'') = length unique_indices)"
proof -
  let ?streams = "[\<lparr>stype = Some ''time'', sdata = [VNum 0, VNum 5, VNum 10]\<rparr>,
      \<lparr>stype = Some ''heartrate'', sdata = [VNum 60, VNone, VNum 62]\<rparr>,
      \<lparr>stype = Some ''altitude'', sdata = [VNum 18]\<rparr>]"
  let ?result = "[(''sampling'', ''approx_5s''), (''time_s_csv'', ''0,5,10''),
               (''hr_bpm_csv'', ''60,,62''), (''alt_m_csv'', ''18,,'')]"
  let ?quantiles = "[(''time_s'', [(''5'', 1 / 2), (''25'', 5 / 2), (''50'', 5), (''75'', 15 / 2),
                             (''95'', 19 / 2)]),
               (''hr_bpm'', [(''5'', 601 / 10), (''25'', 121 / 2), (''50'', 61),
                             (''75'', 123 / 2), (''95'', 619 / 10)]),
               (''altitude_m'', [(''5'', 18), (''25'', 18), (''50'', 18), (''75'', 18),
                                 (''95'', 18 :: rat)])]"
  have run: "sample_streams_common ?streams 5 False False False
               = Some (Inr (?result, ?quantiles))"
    by code_simp
  have ne: "?result \<noteq> []" by simp
  from csv_fields_aligned [OF run ne] obtain streams_dict time_data unique_indices where
    "rebase_streams ?streams False = Inr (Some (streams_dict, time_data))"
    "find_sampling_indices time_data 5 = Some unique_indices"
    "\<forall>(key, csv) \<in> set ?result.
        key \<noteq> ''sampling'' \<longrightarrow> length (py_split CHR '','' csv) = length unique_indices"
    by blast
  then have "rebase_streams ?streams False = Inr (Some (streams_dict, time_data)) \<and>
      find_sampling_indices time_data 5 = Some unique_indices \<and>
      length (py_split CHR '','' ''0,5,10'') = length unique_indices \<and>
      length (py_split CHR '','' ''60,,62'') = length unique_indices \<and>
      length (py_split CHR '','' ''18,,'') = length unique_indices"
    by simp
  with run show ?thesis by blast
qed

subsection \<open>Rewriting the heart rate of a record\<close>

lemma digit_val_digit_char: "d < 10 \<Longrightarrow> digit_val (digit_char d) = Some d"
  by (simp add: digit_val_def of_char_digit)

lemma parse_digits_snoc:
  "parse_digits acc (xs @ [c]) =
     (case parse_digits acc xs of
        None \<Rightarrow> None
      | Some m \<Rightarrow> (case digit_val c of None \<Rightarrow> None | Some d \<Rightarrow> Some (10 * m + d)))"
  by (induction xs arbitrary: acc) (auto split: option.splits)

lemma parse_digits_str_nat: "parse_digits 0 (str_nat n) = Some n"
proof (induction n rule: str_nat.induct)
  case (1 n)
  show ?case
  proof (cases "n < 10")
    case True
    then show ?thesis by (subst str_nat.simps) (simp add: digit_val_digit_char)
  next
    case False
    have "n mod 10 < 10" by simp
    from digit_val_digit_char [OF this] 1 [OF False] False show ?thesis
      by (subst str_nat.simps) (simp add: parse_digits_snoc)
  qed
qed

lemma digit_char_not_minus: "d < 10 \<Longrightarrow> digit_char d \<noteq> CHR ''-''"
proof
  assume d: "d < 10" and "digit_char d = CHR ''-''"
  then have "(of_char (digit_char d) :: nat) = of_char CHR ''-''" by simp
  with of_char_digit [OF d] show False by simp
qed

lemma str_nat_hd_not_minus: "hd (str_nat n) \<noteq> CHR ''-''"
proof (induction n rule: str_nat.induct)
  case (1 n)
  show ?case
  proof (cases "n < 10")
    case True
    then show ?thesis
      using digit_char_not_minus [of n] by (subst str_nat.simps) simp
  next
    case False
    with 1 str_nat_not_empty [of "n div 10"] show ?thesis
      by (subst str_nat.simps) simp
  qed
qed

lemma int_of_str_str_int: "int_of_str (str_int i) = Inr i"
proof (cases "i < 0")
  case True
  then show ?thesis
    by (simp add: int_of_str_def str_int_def str_nat_not_empty parse_digits_str_nat)
next
  case False
  obtain c cs where s: "str_nat (nat i) = c # cs"
    using str_nat_not_empty [of "nat i"] by (cases "str_nat (nat i)") auto
  with str_nat_hd_not_minus [of "nat i"] have "c \<noteq> CHR ''-''" by simp
  with False s parse_digits_str_nat [of "nat i"] show ?thesis
    by (simp add: int_of_str_def str_int_def)
qed

lemma emap_int_of_str: "emap int_of_str (map str_int xs) = Inr xs"
  by (induction xs) (simp_all add: int_of_str_str_int)

lemma emap_randint:
  "min_hr \<le> max_hr \<Longrightarrow>
   emap (\<lambda>k. randint min_hr max_hr (rnd k)) [pos..<pos + n] = Inr (draws rnd pos min_hr max_hr n)"
  unfolding draws_def by (rule emap_Inr_map) (simp add: randint_def)

lemma length_draws: "length (draws rnd pos min_hr max_hr n) = n"
  by (simp add: draws_def)

lemma replace_hr_result:
  assumes "min_hr \<le> max_hr"
  shows "replace_hr rnd pos min_hr max_hr obj sc hr_csv =
     (let drawn = draws rnd pos min_hr max_hr (length (hr_tokens hr_csv));
          obj1 = AList.update ''streams_compact''
                   (JObj (AList.update ''hr_bpm_csv''
                            (JStr (py_join CHR '','' (map str_int drawn))) sc)) obj
      in if drawn \<noteq> [] then
           (case update_summaries drawn obj1 of
              Inl e \<Rightarrow> Inl e
            | Inr obj2 \<Rightarrow> Inr (JObj obj2, pos + length (hr_tokens hr_csv)))
         else Inr (JObj obj1, pos + length (hr_tokens hr_csv)))"
  by (simp add: replace_hr_def Let_def emap_randint [OF assms] emap_int_of_str)

lemma modify_record_hr:
  assumes "map_of obj ''streams_compact'' = Some (JObj sc)"
    and "map_of sc ''hr_bpm_csv'' = Some (JStr hr_csv)" and "hr_csv \<noteq> []"
  shows "modify_record rnd pos min_hr max_hr (JObj obj) =
           replace_hr rnd pos min_hr max_hr obj sc hr_csv"
  using assms by (simp add: modify_record_def)

lemma update_summaries_result:
  assumes "map_of obj1 ''quantiles'' = None \<or> (\<exists>q. map_of obj1 ''quantiles'' = Some (JObj q))"
  shows "\<exists>obj2 q'. update_summaries numeric_hr obj1 = Inr obj2 \<and>
     map_of obj2 ''quantiles'' = Some (JObj q') \<and>
     map_of q' ''hr_bpm'' =
       Some (json_of_quantile_dict (quantile_dict (map of_int numeric_hr))) \<and>
     map_of obj2 ''streams_compact'' = map_of obj1 ''streams_compact'' \<and>
     map_of obj2 ''average_heartrate_bpm'' =
       (if map_of obj1 ''average_heartrate_bpm'' \<noteq> None
        then Some (JNum (of_int (py_int (mean numeric_hr)))) else None) \<and>
     map_of obj2 ''max_heartrate_bpm'' =
       (if map_of obj1 ''max_heartrate_bpm'' \<noteq> None
        then Some (JNum (of_int (py_max numeric_hr))) else None)"
  using assms
proof
  assume "map_of obj1 ''quantiles'' = None"
  then show ?thesis
    by (simp add: update_summaries_def Let_def update_conv')
next
  assume "\<exists>q. map_of obj1 ''quantiles'' = Some (JObj q)"
  then obtain q where "map_of obj1 ''quantiles'' = Some (JObj q)" by blast
  then show ?thesis
    by (simp add: update_summaries_def Let_def update_conv')
qed

lemma modify_record_summary:
  assumes sc: "map_of obj ''streams_compact'' = Some (JObj sc)"
    and hr: "map_of sc ''hr_bpm_csv'' = Some (JStr hr_csv)" and ne: "hr_csv \<noteq> []"
    and lt: "min_hr < max_hr"
    and q: "map_of obj ''quantiles'' = None \<or> (\<exists>q. map_of obj ''quantiles'' = Some (JObj q))"
    and drawn: "drawn = draws rnd pos min_hr max_hr (length (hr_tokens hr_csv))"
  shows "\<exists>obj' sc'.
      modify_record rnd pos min_hr max_hr (JObj obj)
        = Inr (JObj obj', pos + length (hr_tokens hr_csv)) \<and>
      map_of obj' ''streams_compact'' = Some (JObj sc') \<and>
      map_of sc' ''hr_bpm_csv'' = Some (JStr (py_join CHR '','' (map str_int drawn))) \<and>
      (drawn \<noteq> [] \<longrightarrow>
         (\<exists>q'. map_of obj' ''quantiles'' = Some (JObj q') \<and>
               map_of q' ''hr_bpm'' =
                 Some (json_of_quantile_dict (quantile_dict (map of_int drawn)))) \<and>
         map_of obj' ''average_heartrate_bpm'' =
           (if map_of obj ''average_heartrate_bpm'' \<noteq> None
            then Some (JNum (of_int (py_int (mean drawn)))) else None) \<and>
         map_of obj' ''max_heartrate_bpm'' =
           (if map_of obj ''max_heartrate_bpm'' \<noteq> None
            then Some (JNum (of_int (py_max drawn))) else None))"
proof -
  let ?sc' = "AList.update ''hr_bpm_csv'' (JStr (py_join CHR '','' (map str_int drawn))) sc"
  let ?obj1 = "AList.update ''streams_compact'' (JObj ?sc') obj"
  let ?n = "length (hr_tokens hr_csv)"
  from lt have le: "min_hr \<le> max_hr" by simp
  have m: "modify_record rnd pos min_hr max_hr (JObj obj) =
      (if drawn \<noteq> [] then
           (case update_summaries drawn ?obj1 of
              Inl e \<Rightarrow> Inl e
            | Inr obj2 \<Rightarrow> Inr (JObj obj2, pos + ?n))
         else Inr (JObj ?obj1, pos + ?n))"
    unfolding modify_record_hr [OF sc hr ne] replace_hr_result [OF le] Let_def drawn ..
  have s1: "map_of ?obj1 ''streams_compact'' = Some (JObj ?sc')"
    by (simp add: update_conv')
  have s2: "map_of ?sc' ''hr_bpm_csv'' = Some (JStr (py_join CHR '','' (map str_int drawn)))"
    by (simp add: update_conv')
  show ?thesis
  proof (cases "drawn = []")
    case True
    with m s1 s2 show ?thesis by simp
  next
    case False
    have q1: "map_of ?obj1 ''quantiles'' = None \<or>
              (\<exists>q. map_of ?obj1 ''quantiles'' = Some (JObj q))"
      using q by (simp add: update_conv')
    have a1: "map_of ?obj1 ''average_heartrate_bpm'' = map_of obj ''average_heartrate_bpm''"
      and m1: "map_of ?obj1 ''max_heartrate_bpm'' = map_of obj ''max_heartrate_bpm''"
      by (simp_all add: update_conv')
    from update_summaries_result [OF q1, of drawn] obtain obj2 q' where
      u: "update_summaries drawn ?obj1 = Inr obj2"
      and f: "map_of obj2 ''quantiles'' = Some (JObj q')"
        "map_of q' ''hr_bpm'' = Some (json_of_quantile_dict (quantile_dict (map of_int drawn)))"
        "map_of obj2 ''streams_compact'' = map_of ?obj1 ''streams_compact''"
        "map_of obj2 ''average_heartrate_bpm'' =
           (if map_of ?obj1 ''average_heartrate_bpm'' \<noteq> None
            then Some (JNum (of_int (py_int (mean drawn)))) else None)"
        "map_of obj2 ''max_heartrate_bpm'' =
           (if map_of ?obj1 ''max_heartrate_bpm'' \<noteq> None
            then Some (JNum (of_int (py_max drawn))) else None)"
      by blast
    from m False u have "modify_record rnd pos min_hr max_hr (JObj obj)
        = Inr (JObj obj2, pos + ?n)" by simp
    with f s1 s2 a1 m1 show ?thesis by (simp only:) blast
  qed
qed

text \<open>
  C6. The claim asks that the rewrite keeps the count of comma-separated entries.
  The record below is what the pipeline writes for the heart rates 60, \<^verbatim>\<open>None\<close>, 62
  at the times 0, 5, 10: \<^verbatim>\<open>_format_sampled_values\<close> writes an empty entry for the
  missing sample, so that \<^verbatim>\<open>hr_bpm_csv\<close> \<open>60,,62\<close> has one entry per entry of
  \<^verbatim>\<open>time_s_csv\<close>. On this record the loop body of \<^verbatim>\<open>modify_heartrate_to_abnormal\<close>
  drops the empty entry: the new \<^verbatim>\<open>hr_bpm_csv\<close> has two entries beside a
  \<^verbatim>\<open>time_s_csv\<close> of three.
\<close>

theorem randomize_misaligns_heart_rate:
  "sample_streams_common
     [\<lparr>stype = Some ''time'', sdata = [VNum 0, VNum 5, VNum 10]\<rparr>,
      \<lparr>stype = Some ''heartrate'', sdata = [VNum 60, VNone, VNum 62]\<rparr>] 5 False False False =
   Some (Inr ([(''sampling'', ''approx_5s''), (''time_s_csv'', ''0,5,10''),
               (''hr_bpm_csv'', ''60,,62'')],
              [(''time_s'', [(''5'', 1 / 2), (''25'', 5 / 2), (''50'', 5), (''75'', 15 / 2),
                             (''95'', 19 / 2)]),
               (''hr_bpm'', [(''5'', 601 / 10), (''25'', 121 / 2), (''50'', 61),
                             (''75'', 123 / 2), (''95'', 619 / 10)])])) \<and>
   modify_record id 0 210 240
     (JObj [(''streams_compact'',
             JObj [(''sampling'', JStr ''approx_5s''), (''time_s_csv'', JStr ''0,5,10''),
                   (''hr_bpm_csv'', JStr ''60,,62'')])]) =
   Inr (JObj [(''streams_compact'',
               JObj [(''sampling'', JStr ''approx_5s''), (''time_s_csv'', JStr ''0,5,10''),
                     (''hr_bpm_csv'', JStr ''210,211'')]),
              (''quantiles'',
               JObj [(''hr_bpm'',
                      JObj [(''5'', JNum (4201 / 20)), (''25'', JNum (841 / 4)),
                            (''50'', JNum (421 / 2)), (''75'', JNum (843 / 4)),
                            (''95'', JNum (4219 / 20))])])], 2) \<and>
   length (py_split CHR '','' ''0,5,10'') = 3 \<and>
   length (py_split CHR '','' ''60,,62'') = 3 \<and>
   length (py_split CHR '','' ''210,211'') = 2"
  by code_simp

text \<open>
  C7, as amended. For every record whose \<^verbatim>\<open>streams_compact.hr_bpm_csv\<close> is a
  non-empty string with at least one token that is not empty after trimming (and
  whose \<^verbatim>\<open>quantiles\<close>, if present, is a dictionary), with \<open>min_hr < max_hr\<close>: a
  top-level \<^verbatim>\<open>average_heartrate_bpm\<close> of the record is overwritten with the
  mean of the new values truncated to an integer (\<^verbatim>\<open>int(np.mean(numeric_hr))\<close>), and
  a top-level \<^verbatim>\<open>max_heartrate_bpm\<close> with the maximum of the new values.
\<close>

theorem randomize_overwrites_scalars:
  assumes "map_of obj ''streams_compact'' = Some (JObj sc)"
    and "map_of sc ''hr_bpm_csv'' = Some (JStr hr_csv)" and "hr_csv \<noteq> []"
    and "min_hr < max_hr"
    and "map_of obj ''quantiles'' = None \<or> (\<exists>q. map_of obj ''quantiles'' = Some (JObj q))"
    and "drawn = draws rnd pos min_hr max_hr (length (hr_tokens hr_csv))"
    and "hr_tokens hr_csv \<noteq> []"
  shows "\<exists>obj'.
      modify_record rnd pos min_hr max_hr (JObj obj)
        = Inr (JObj obj', pos + length (hr_tokens hr_csv)) \<and>
      (map_of obj ''average_heartrate_bpm'' \<noteq> None \<longrightarrow>
         map_of obj' ''average_heartrate_bpm'' = Some (JNum (of_int (py_int (mean drawn))))) \<and>
      (map_of obj ''max_heartrate_bpm'' \<noteq> None \<longrightarrow>
         map_of obj' ''max_heartrate_bpm'' = Some (JNum (of_int (Max (set drawn)))))"
proof -
  have "length drawn = length (hr_tokens hr_csv)"
    by (simp add: assms(6) length_draws)
  with assms(7) have "drawn \<noteq> []" by auto
  with modify_record_summary [OF assms(1-6)] show ?thesis
    by (simp only: py_max_def) auto
qed

theorem randomize_overwrites_scalars_witness:
  "[210, 211] = draws id 0 210 240 (length (hr_tokens ''140,150'')) \<and>
   py_int (mean [210, 211]) = 210 \<and> Max (set [210, 211 :: int]) = 211 \<and>
   (\<exists>obj'.
      modify_record id 0 210 240
        (JObj [(''average_heartrate_bpm'', JNum 150), (''max_heartrate_bpm'', JNum 160),
               (''streams_compact'', JObj [(''hr_bpm_csv'', JStr ''140,150'')])])
        = Inr (JObj obj', 0 + length (hr_tokens ''140,150'')) \<and>
      map_of obj' ''average_heartrate_bpm'' = Some (JNum (of_int (py_int (mean [210, 211])))) \<and>
      map_of obj' ''max_heartrate_bpm'' = Some (JNum (of_int (Max (set [210, 211])))))"
proof -
  let ?sc = "[(''hr_bpm_csv'', JStr ''140,150'')]"
  let ?obj = "[(''average_heartrate_bpm'', JNum 150), (''max_heartrate_bpm'', JNum 160),
               (''streams_compact'', JObj ?sc)]"
  have 1: "map_of ?obj ''streams_compact'' = Some (JObj ?sc)" by simp
  have 2: "map_of ?sc ''hr_bpm_csv'' = Some (JStr ''140,150'')" by simp
  have 3: "''140,150'' \<noteq> []" by simp
  have 4: "(210 :: int) < 240" by simp
  have 5: "map_of ?obj ''quantiles'' = None \<or> (\<exists>q. map_of ?obj ''quantiles'' = Some (JObj q))"
    by simp
  have 6: "[210, 211] = draws id 0 210 240 (length (hr_tokens ''140,150''))"
    by code_simp
  have 7: "hr_tokens ''140,150'' \<noteq> []" by code_simp
  have 8: "py_int (mean [210, 211]) = 210" by code_simp
  have 9: "Max (set [210, 211 :: int]) = 211" by simp
  have a: "map_of ?obj ''average_heartrate_bpm'' \<noteq> None" by simp
  have m: "map_of ?obj ''max_heartrate_bpm'' \<noteq> None" by simp
  from randomize_overwrites_scalars [OF 1 2 3 4 5 6 7] a m
  have "\<exists>obj'.
      modify_record id 0 210 240 (JObj ?obj)
        = Inr (JObj obj', 0 + length (hr_tokens ''140,150'')) \<and>
      map_of obj' ''average_heartrate_bpm'' = Some (JNum (of_int (py_int (mean [210, 211])))) \<and>
      map_of obj' ''max_heartrate_bpm'' = Some (JNum (of_int (Max (set [210, 211]))))"
    by blast
  with 6 8 9 show ?thesis by (intro conjI)
qed


text \<open>
  C7, as stated, fails when the mean of the new values is not an integer: for the
  new values 210 and 211 the field holds 210, and their mean is 210.5.
\<close>

theorem randomize_truncates_mean:
  "modify_record id 0 210 240
     (JObj [(''average_heartrate_bpm'', JNum 150),
            (''streams_compact'', JObj [(''hr_bpm_csv'', JStr ''140,150'')])]) =
   Inr (JObj [(''average_heartrate_bpm'', JNum 210),
              (''streams_compact'', JObj [(''hr_bpm_csv'', JStr ''210,211'')]),
              (''quantiles'',
               JObj [(''hr_bpm'',
                      JObj [(''5'', JNum (4201 / 20)), (''25'', JNum (841 / 4)),
                            (''50'', JNum (421 / 2)), (''75'', JNum (843 / 4)),
                            (''95'', JNum (4219 / 20))])])], 2) \<and>
   mean [210, 211] = 421 / 2 \<and> JNum 210 \<noteq> JNum (421 / 2)"
  by code_simp

end
